theory Spec2Isabelle
  imports Complex_Main "HOL-Library.Sublist"
begin

section \<open>JavaScript values\<close>

text \<open>
  A JavaScript number is either not-a-number or a finite value. Finite values are
  taken as real numbers and the arithmetic on them is exact: the rounding of
  double-precision arithmetic, the infinities and the negative zero are outside
  this development. So \<open>2.4 * 10 * 0.0254\<close> is \<open>0.6096\<close> here, where double-precision
  arithmetic gives \<open>0.6095999999999999\<close>; a product that overflows there is finite
  here; and a comparison of two numbers that lie within a rounding error of each
  other can come out the other way.
\<close>

datatype jsnum = NaN | Fin real

fun isNaN :: "jsnum \<Rightarrow> bool" where
  "isNaN NaN = True"
| "isNaN (Fin _) = False"

fun jadd :: "jsnum \<Rightarrow> jsnum \<Rightarrow> jsnum" where
  "jadd (Fin a) (Fin b) = Fin (a + b)"
| "jadd _ _ = NaN"

fun jsub :: "jsnum \<Rightarrow> jsnum \<Rightarrow> jsnum" where
  "jsub (Fin a) (Fin b) = Fin (a - b)"
| "jsub _ _ = NaN"

fun jmul :: "jsnum \<Rightarrow> jsnum \<Rightarrow> jsnum" where
  "jmul (Fin a) (Fin b) = Fin (a * b)"
| "jmul _ _ = NaN"

text \<open>Division by a non-zero divisor.\<close>

fun jdiv :: "jsnum \<Rightarrow> jsnum \<Rightarrow> jsnum" where
  "jdiv (Fin a) (Fin b) = (if b = 0 then NaN else Fin (a / b))"
| "jdiv _ _ = NaN"

fun jneg :: "jsnum \<Rightarrow> jsnum" where
  "jneg (Fin a) = Fin (- a)"
| "jneg NaN = NaN"

text \<open>Comparisons with not-a-number are false.\<close>

fun jgt :: "jsnum \<Rightarrow> jsnum \<Rightarrow> bool" where
  "jgt (Fin a) (Fin b) = (a > b)"
| "jgt _ _ = False"

text \<open>\<^verbatim>\<open>Math.sin\<close>, \<^verbatim>\<open>Math.abs\<close>, \<^verbatim>\<open>Math.max\<close> and \<^verbatim>\<open>Math.min\<close>.\<close>

fun jsin :: "jsnum \<Rightarrow> jsnum" where
  "jsin (Fin a) = Fin (sin a)"
| "jsin NaN = NaN"

fun jabs :: "jsnum \<Rightarrow> jsnum" where
  "jabs (Fin a) = Fin \<bar>a\<bar>"
| "jabs NaN = NaN"

fun jmax :: "jsnum \<Rightarrow> jsnum \<Rightarrow> jsnum" where
  "jmax (Fin a) (Fin b) = Fin (max a b)"
| "jmax _ _ = NaN"

fun jmin :: "jsnum \<Rightarrow> jsnum \<Rightarrow> jsnum" where
  "jmin (Fin a) (Fin b) = Fin (min a b)"
| "jmin _ _ = NaN"

text \<open>A number is truthy unless it is zero or not-a-number.\<close>

fun truthyNum :: "jsnum \<Rightarrow> bool" where
  "truthyNum (Fin a) = (a \<noteq> 0)"
| "truthyNum NaN = False"

text \<open>
  The fields of a shape record come from destructuring an array of strings, so a
  field beyond the end of the array is \<^verbatim>\<open>undefined\<close>: a field is a \<open>string option\<close>
  with \<open>None\<close> for \<^verbatim>\<open>undefined\<close>.
\<close>

type_synonym field = "string option"

definition arg :: "string list \<Rightarrow> nat \<Rightarrow> field" where
  "arg args i = (if i < length args then Some (args ! i) else None)"

text \<open>\<^verbatim>\<open>ToString\<close> of a field, as the built-in parsers apply it.\<close>

fun toStr :: "field \<Rightarrow> string" where
  "toStr None = ''undefined''"
| "toStr (Some s) = s"

text \<open>A string is truthy unless it is empty; \<^verbatim>\<open>undefined\<close> is falsy.\<close>

fun truthy :: "field \<Rightarrow> bool" where
  "truthy None = False"
| "truthy (Some s) = (s \<noteq> [])"

text \<open>An argument of type \<^verbatim>\<open>string | number\<close> that may be \<^verbatim>\<open>undefined\<close>.\<close>

datatype jsarg = Absent | Text string | Number jsnum

fun ofField :: "field \<Rightarrow> jsarg" where
  "ofField None = Absent"
| "ofField (Some s) = Text s"

text \<open>
  The output tree: a node is an array whose children are atoms (\<^verbatim>\<open>null\<close>,
  \<^verbatim>\<open>undefined\<close>, strings, numbers) or nodes. \<open>Inherited k\<close> is the value that an
  object literal holds under the name \<open>k\<close> without having it as a key of its own:
  the property \<open>k\<close> of \<^verbatim>\<open>Object.prototype\<close>, which is a function or, for
  \<^verbatim>\<open>__proto__\<close>, the prototype itself.
\<close>

datatype jsval =
  Undefined | Null | Str string | Num jsnum | Arr "jsval list" | Inherited string

text \<open>
  Truthiness of a value: \<^verbatim>\<open>undefined\<close>, \<^verbatim>\<open>null\<close>, the empty string, zero and
  not-a-number are falsy; arrays, functions and objects are truthy.
\<close>

fun truthyVal :: "jsval \<Rightarrow> bool" where
  "truthyVal Undefined = False"
| "truthyVal Null = False"
| "truthyVal (Str s) = (s \<noteq> [])"
| "truthyVal (Num n) = truthyNum n"
| "truthyVal (Arr vs) = True"
| "truthyVal (Inherited k) = True"

text \<open>
  \<^verbatim>\<open>v[0]\<close> for a string or an inherited value: the first character of a string;
  \<^verbatim>\<open>undefined\<close> for the empty string and for an inherited value, which has no
  property \<^verbatim>\<open>0\<close>.
\<close>

fun firstChar :: "jsval \<Rightarrow> jsval" where
  "firstChar (Str (c # cs)) = Str [c]"
| "firstChar _ = Undefined"

fun strOf :: "field \<Rightarrow> jsval" where
  "strOf None = Undefined"
| "strOf (Some s) = Str s"

definition ofInt :: "int \<Rightarrow> jsval" where
  "ofInt i = Num (Fin (of_int i))"

section \<open>The environment: built-ins and the modules outside this file\<close>

text \<open>
  \<^verbatim>\<open>board.ts\<close> imports \<^verbatim>\<open>kiCoords\<close>, \<^verbatim>\<open>kiAt\<close> and \<^verbatim>\<open>rotate\<close> from \<^verbatim>\<open>./common\<close> and
  \<^verbatim>\<open>computeArc\<close> from \<^verbatim>\<open>./svg-arc\<close>, and it calls the built-ins \<^verbatim>\<open>parseFloat\<close>,
  \<^verbatim>\<open>parseInt(_, 10)\<close> and \<^verbatim>\<open>toFixed(2)\<close>. These are parameters of the embedding: every
  converter takes the environment \<open>E\<close> that supplies them. \<^verbatim>\<open>parseInt\<close> returns an
  integer or not-a-number (\<open>None\<close>).
\<close>

record parentTransform =
  tx :: jsnum
  ty :: jsnum
  tangle :: "jsnum option"

type_synonym coords = "jsnum \<times> jsnum"

record env =
  parseFloat :: "string \<Rightarrow> jsnum"
  parseInt :: "string \<Rightarrow> int option"
  kiCoords :: "jsarg \<Rightarrow> jsarg \<Rightarrow> parentTransform option \<Rightarrow> coords"
  kiAt :: "jsarg \<Rightarrow> jsarg \<Rightarrow> jsarg \<Rightarrow> parentTransform option \<Rightarrow> jsval"
  rotate :: "coords \<Rightarrow> jsnum \<Rightarrow> coords"
  computeArc :: "jsnum \<Rightarrow> jsnum \<Rightarrow> jsnum \<Rightarrow> jsnum \<Rightarrow> jsnum \<Rightarrow> bool \<Rightarrow> bool
                  \<Rightarrow> jsnum \<Rightarrow> jsnum \<Rightarrow> jsnum \<times> jsnum \<times> jsnum"
  toFixed2 :: "jsnum \<Rightarrow> string"

section \<open>Units and angles\<close>

text \<open>
  \<^verbatim>\<open>kiUnits\<close> and \<^verbatim>\<open>kiAngle\<close> are taken from the earlier engine file, which
  defines them itself.

  \<^verbatim>\<open>kiUnits\<close>: a string is parsed first; the value is then multiplied by 10 and by
  0.0254. \<^verbatim>\<open>undefined * 10\<close> is not-a-number.
\<close>

fun kiUnits :: "env \<Rightarrow> jsarg \<Rightarrow> jsnum" where
  "kiUnits E (Text s) = jmul (jmul (parseFloat E s) (Fin 10)) (Fin 0.0254)"
| "kiUnits E (Number v) = jmul (jmul v (Fin 10)) (Fin 0.0254)"
| "kiUnits E Absent = jmul (jmul NaN (Fin 10)) (Fin 0.0254)"

text \<open>\<^verbatim>\<open>kiAngle\<close>: \<open>None\<close> is \<^verbatim>\<open>null\<close>.\<close>

definition kiAngle :: "env \<Rightarrow> field \<Rightarrow> jsnum option" where
  "kiAngle E value =
     (let angle = parseFloat E (toStr value) in
      if \<not> isNaN angle
      then Some (if jgt angle (Fin 180) then jneg (jsub (Fin 360) angle) else angle)
      else None)"

section \<open>Conversion state, nets and layers\<close>

record conversionState =
  nets :: "string list"
  innerLayers :: int

datatype error = MissingLayerId string | TypeError string

text \<open>\<^verbatim>\<open>Array.prototype.indexOf\<close>: the first index holding the value, or -1.\<close>

fun indexOf :: "string list \<Rightarrow> string \<Rightarrow> int" where
  "indexOf [] s = -1"
| "indexOf (x # xs) s =
     (if x = s then 0 else (let i = indexOf xs s in if i < 0 then -1 else i + 1))"

text \<open>
  \<^verbatim>\<open>getNetId\<close>: the guard \<^verbatim>\<open>!netName\<close> holds for \<^verbatim>\<open>undefined\<close> and for the empty
  string. The state is returned with the net table as the call leaves it.
\<close>

definition getNetId :: "conversionState \<Rightarrow> field \<Rightarrow> int \<times> conversionState" where
  "getNetId st netName =
     (if \<not> truthy netName then (-1, st)
      else (let index = indexOf (nets st) (toStr netName) in
            if index \<ge> 0 then (index, st)
            else (let nets' = nets st @ [toStr netName] in
                  (int (length nets') - 1, st\<lparr>nets := nets'\<rparr>))))"

text \<open>
  The object literals of the program are association lists of their own keys. An
  object literal also answers to the property names of \<^verbatim>\<open>Object.prototype\<close>: for
  these, \<^verbatim>\<open>k in obj\<close> is true and \<^verbatim>\<open>obj[k]\<close> is the inherited value. The names are
  those of the language standard, with its annex for web browsers.
\<close>

definition objectPrototypeNames :: "string list" where
  "objectPrototypeNames =
     [''constructor'', ''hasOwnProperty'', ''isPrototypeOf'', ''propertyIsEnumerable'',
      ''toLocaleString'', ''toString'', ''valueOf'', ''__proto__'', ''__defineGetter__'',
      ''__defineSetter__'', ''__lookupGetter__'', ''__lookupSetter__'']"

definition inherited :: "string \<Rightarrow> bool" where
  "inherited k = (k \<in> set objectPrototypeNames)"

text \<open>The static layer table of \<^verbatim>\<open>getLayerName\<close>; its keys are strings.\<close>

definition layers :: "(string \<times> string) list" where
  "layers =
     [(''1'', ''F.Cu''), (''2'', ''B.Cu''), (''3'', ''F.SilkS''), (''4'', ''B.SilkS''),
      (''5'', ''F.Paste''), (''6'', ''B.Paste''), (''7'', ''F.Mask''), (''8'', ''B.Mask''),
      (''10'', ''Edge.Cuts''), (''11'', ''Edge.Cuts''), (''12'', ''Cmts.User''),
      (''13'', ''F.Fab''), (''14'', ''B.Fab''), (''15'', ''Dwgs.User'')]"

text \<open>Decimal rendering of an integer, as a template literal renders a number.\<close>

fun showNat :: "nat \<Rightarrow> string" where
  "showNat n =
     (if n < 10 then [''0123456789'' ! n]
      else showNat (n div 10) @ [''0123456789'' ! (n mod 10)])"

declare showNat.simps [simp del]

definition showInt :: "int \<Rightarrow> string" where
  "showInt i = (if i < 0 then CHR ''-'' # showNat (nat (- i)) else showNat (nat i))"

text \<open>
  \<^verbatim>\<open>getLayerName\<close>: \<open>Inr (Str name, st')\<close> is a returned name, \<open>Inr (Null, st')\<close> is
  \<^verbatim>\<open>null\<close> (after the warning), \<open>Inl\<close> is the thrown error. For an id that is a
  property name of \<^verbatim>\<open>Object.prototype\<close>, \<^verbatim>\<open>id in layers\<close> holds and the inherited value
  is returned.
\<close>

definition getLayerName ::
  "env \<Rightarrow> field \<Rightarrow> conversionState \<Rightarrow> error + (jsval \<times> conversionState)" where
  "getLayerName E id' st =
     (case map_of layers (toStr id') of
        Some name \<Rightarrow> Inr (Str name, st)
      | None \<Rightarrow>
         if inherited (toStr id') then Inr (Inherited (toStr id'), st)
         else
           (case parseInt E (toStr id') of
              None \<Rightarrow> Inl (MissingLayerId (toStr id'))
            | Some intId \<Rightarrow>
               if intId \<ge> 21 \<and> intId \<le> 50 then
                 (let innerLayerId = intId - 20 in
                  Inr (Str (''In'' @ showInt innerLayerId @ ''.Cu''),
                       st\<lparr>innerLayers := max (innerLayers st) innerLayerId\<rparr>))
               else if intId \<ge> 99 \<and> intId < 200 then Inr (Null, st)
               else Inl (MissingLayerId (toStr id'))))"

text \<open>\<^verbatim>\<open>s.endsWith(t)\<close>.\<close>

definition endsWith :: "string \<Rightarrow> string \<Rightarrow> bool" where
  "endsWith s t = (length t \<le> length s \<and> drop (length s - length t) s = t)"

text \<open>
  \<^verbatim>\<open>isCopper\<close> of a layer name that is a string. An inherited value has no method
  \<^verbatim>\<open>endsWith\<close>, so that calling \<^verbatim>\<open>isCopper\<close> on it throws a \<^verbatim>\<open>TypeError\<close>; the callers
  below write this case out.
\<close>

definition isCopper :: "string \<Rightarrow> bool" where
  "isCopper layerName = endsWith layerName ''.Cu''"

section \<open>String operations\<close>

text \<open>\<^verbatim>\<open>s.split(sep)\<close> for a non-empty separator string.\<close>

fun splitAux :: "string \<Rightarrow> string \<Rightarrow> string \<Rightarrow> string list" where
  "splitAux sep cur [] = [rev cur]"
| "splitAux sep cur (c # cs) =
     (if sep \<noteq> [] \<and> prefix sep (c # cs)
      then rev cur # splitAux sep [] (drop (length sep) (c # cs))
      else splitAux sep (c # cur) cs)"

definition split :: "string \<Rightarrow> string \<Rightarrow> string list" where
  "split sep s = splitAux sep [] s"

text \<open>\<^verbatim>\<open>s.split(/[...]/)\<close> for a character class.\<close>

fun splitClassAux :: "(char \<Rightarrow> bool) \<Rightarrow> string \<Rightarrow> string \<Rightarrow> string list" where
  "splitClassAux P cur [] = [rev cur]"
| "splitClassAux P cur (c # cs) =
     (if P c then rev cur # splitClassAux P [] cs else splitClassAux P (c # cur) cs)"

definition splitClass :: "(char \<Rightarrow> bool) \<Rightarrow> string \<Rightarrow> string list" where
  "splitClass P s = splitClassAux P [] s"

text \<open>\<^verbatim>\<open>xs.join(sep)\<close>.\<close>

fun join :: "string \<Rightarrow> string list \<Rightarrow> string" where
  "join sep [] = []"
| "join sep [x] = x"
| "join sep (x # y # ys) = x @ sep @ join sep (y # ys)"

text \<open>\<^verbatim>\<open>s.replace(pat, rep)\<close> with a string pattern: the first occurrence only.\<close>

fun replaceFirst :: "string \<Rightarrow> string \<Rightarrow> string \<Rightarrow> string" where
  "replaceFirst pat rep [] = (if pat = [] then rep else [])"
| "replaceFirst pat rep (c # cs) =
     (if prefix pat (c # cs) then rep @ drop (length pat) (c # cs)
      else c # replaceFirst pat rep cs)"

text \<open>
  The character classes of the regular expressions: \<^verbatim>\<open>\s\<close> (the ASCII white space;
  characters are bytes here), \<^verbatim>\<open>\d\<close>, \<^verbatim>\<open>[,\s]\<close> and \<^verbatim>\<open>[-\d.\s]\<close>.
\<close>

definition isSpace :: "char \<Rightarrow> bool" where
  "isSpace c = (of_char c \<in> {9, 10, 11, 12, 13, 32 :: nat})"

definition isDigit :: "char \<Rightarrow> bool" where
  "isDigit c = (48 \<le> (of_char c :: nat) \<and> (of_char c :: nat) \<le> 57)"

definition isCommaSpace :: "char \<Rightarrow> bool" where
  "isCommaSpace c = (c = CHR '','' \<or> isSpace c)"

definition isArcChar :: "char \<Rightarrow> bool" where
  "isArcChar c = (c = CHR ''-'' \<or> isDigit c \<or> c = CHR ''.'' \<or> isSpace c)"

text \<open>\<^verbatim>\<open>path.replace(/[,\s]+/g, ' ')\<close>: every run of commas and white space becomes one space.\<close>

fun collapseAux :: "bool \<Rightarrow> string \<Rightarrow> string" where
  "collapseAux inRun [] = []"
| "collapseAux inRun (c # cs) =
     (if isCommaSpace c
      then (if inRun then collapseAux True cs else CHR '' '' # collapseAux True cs)
      else c # collapseAux False cs)"

definition collapseSeparators :: "string \<Rightarrow> string" where
  "collapseSeparators s = collapseAux False s"

text \<open>
  A capture group \<^verbatim>\<open>([-\d.\s]+)\<close> that follows a greedy \<^verbatim>\<open>\s*\<close>: the leading white
  space of the run goes to \<^verbatim>\<open>\s*\<close>, except that the group keeps the last character
  when the run is white space only.
\<close>

definition captureAfterSpaces :: "string \<Rightarrow> string" where
  "captureAfterSpaces u =
     (let t = dropWhile isSpace u in if t = [] then [last u] else t)"

text \<open>
  \<^verbatim>\<open>/^M\s*([-\d.\s]+)A\s*([-\d.\s]+)$/.exec(s)\<close>: the two capture groups, or \<open>None\<close>
  when the string does not match.
\<close>

definition matchArcPath :: "string \<Rightarrow> (string \<times> string) option" where
  "matchArcPath s =
     (case s of
        [] \<Rightarrow> None
      | c # r \<Rightarrow>
         if c \<noteq> CHR ''M'' then None
         else (let u = takeWhile isArcChar r in
               case dropWhile isArcChar r of
                 [] \<Rightarrow> None
               | d # v \<Rightarrow>
                  if d = CHR ''A'' \<and> u \<noteq> [] \<and> v \<noteq> [] \<and> list_all isArcChar v
                  then Some (captureAfterSpaces u, captureAfterSpaces v)
                  else None))"

section \<open>Loops\<close>

text \<open>
  \<^verbatim>\<open>for (let i = i0; i < bound; i += 2) result.push(body(i))\<close>: the list of the
  pushed values.
\<close>

function forBy2 :: "nat \<Rightarrow> int \<Rightarrow> (nat \<Rightarrow> 'a) \<Rightarrow> 'a list" where
  "forBy2 i bound body =
     (if int i < bound then body i # forBy2 (i + 2) bound body else [])"
  by pat_completeness auto
termination
  by (relation "measure (\<lambda>(i, bound, body). nat (bound - int i))") auto

declare forBy2.simps [simp del]

section \<open>Shape converters\<close>

definition kiStartEnd ::
  "env \<Rightarrow> field \<Rightarrow> field \<Rightarrow> field \<Rightarrow> field \<Rightarrow> parentTransform option \<Rightarrow> jsval list" where
  "kiStartEnd E startX startY endX endY parentCoords =
     (let start = kiCoords E (ofField startX) (ofField startY) parentCoords;
          end' = kiCoords E (ofField endX) (ofField endY) parentCoords in
      [Arr [Str ''start'', Num (fst start), Num (snd start)],
       Arr [Str ''end'', Num (fst end'), Num (snd end')]])"

definition convertVia ::
  "env \<Rightarrow> string list \<Rightarrow> conversionState \<Rightarrow> parentTransform option
     \<Rightarrow> jsval \<times> conversionState" where
  "convertVia E args st parentCoords =
     (let x = arg args 0; y = arg args 1; diameter = arg args 2; net = arg args 3;
          drill = arg args 4;
          atNode = kiAt E (ofField x) (ofField y) Absent parentCoords;
          (netId, st') = getNetId st net in
      (Arr [Str ''via'',
            atNode,
            Arr [Str ''size'', Num (kiUnits E (ofField diameter))],
            Arr [Str ''drill'', Num (jmul (kiUnits E (ofField drill)) (Fin 2))],
            Arr [Str ''layers'', Str ''F.Cu'', Str ''B.Cu''],
            Arr [Str ''net'', ofInt netId]],
       st'))"

text \<open>The node pushed by one round of the loop of \<^verbatim>\<open>convertTrack\<close>.\<close>

definition trackNode ::
  "env \<Rightarrow> string list \<Rightarrow> string \<Rightarrow> field \<Rightarrow> string \<Rightarrow> int \<Rightarrow> field
     \<Rightarrow> parentTransform option \<Rightarrow> nat \<Rightarrow> jsval" where
  "trackNode E coordList lineType width layerName netId locked parentCoords i =
     Arr ([Str lineType]
          @ kiStartEnd E (arg coordList i) (arg coordList (i + 1))
              (arg coordList (i + 2)) (arg coordList (i + 3)) parentCoords
          @ [Arr [Str ''width'', Num (kiUnits E (ofField width))],
             Arr [Str ''layer'', Str layerName],
             if isCopper layerName \<and> netId > 0 then Arr [Str ''net'', ofInt netId] else Null,
             if locked = Some ''1'' then Arr [Str ''status'', ofInt 40000] else Null])"

text \<open>
  \<^verbatim>\<open>convertTrack\<close>: the net is resolved first, then the coordinates are split (a
  \<^verbatim>\<open>TypeError\<close> when the field is \<^verbatim>\<open>undefined\<close>), then the layer is resolved. With an
  inherited value for the layer, \<^verbatim>\<open>isCopper\<close> throws where it is first called: for the
  line type when the kind is \<^verbatim>\<open>segment\<close>, and otherwise in the first round of the
  loop, if there is one.
\<close>

definition convertTrack ::
  "env \<Rightarrow> string list \<Rightarrow> conversionState \<Rightarrow> string \<Rightarrow> parentTransform option
     \<Rightarrow> error + (jsval list \<times> conversionState)" where
  "convertTrack E args st objName parentCoords =
     (let width = arg args 0; layer = arg args 1; net = arg args 2; coords = arg args 3;
          locked = arg args 5;
          (netId, st1) = getNetId st net in
      case coords of
        None \<Rightarrow> Inl (TypeError ''coords is undefined'')
      | Some cs \<Rightarrow>
         (let coordList = split '' '' cs in
          case getLayerName E layer st1 of
            Inl e \<Rightarrow> Inl e
          | Inr (layerName, st2) \<Rightarrow>
             if \<not> truthyVal layerName then Inr ([], st2)
             else
               (case layerName of
                  Str name \<Rightarrow>
                   (let lineType =
                          (if objName = ''segment'' \<and> \<not> isCopper name
                           then ''gr_line'' else objName) in
                    Inr (forBy2 0 (int (length coordList) - 2)
                           (trackNode E coordList lineType width name netId
                              locked parentCoords),
                         st2))
                | _ \<Rightarrow>
                   if objName = ''segment'' \<or> 0 < int (length coordList) - 2
                   then Inl (TypeError ''layerName.endsWith is not a function'')
                   else Inr ([], st2))))"

text \<open>
  \<^verbatim>\<open>textLayer\<close>: an inherited value has no method \<^verbatim>\<open>replace\<close>, so that the name text
  of a footprint throws a \<^verbatim>\<open>TypeError\<close> on it.
\<close>

definition textLayer ::
  "env \<Rightarrow> field \<Rightarrow> conversionState \<Rightarrow> bool \<Rightarrow> bool
     \<Rightarrow> error + (jsval \<times> conversionState)" where
  "textLayer E layer st footprint isName =
     (case getLayerName E layer st of
        Inl e \<Rightarrow> Inl e
      | Inr (layerName, st') \<Rightarrow>
         if truthyVal layerName \<and> footprint \<and> isName
         then (case layerName of
                 Str name \<Rightarrow> Inr (Str (replaceFirst ''.SilkS'' ''.Fab'' name), st')
               | _ \<Rightarrow> Inl (TypeError ''layerName.replace is not a function''))
         else Inr (layerName, st'))"

text \<open>The font table of \<^verbatim>\<open>convertText\<close>: width, height and thickness multipliers.\<close>

definition fontTable :: "(string \<times> real \<times> real \<times> real) list" where
  "fontTable =
     [(''NotoSerifCJKsc-Medium'', 0.8, 0.8, 0.3),
      (''NotoSansCJKjp-DemiLight'', 0.6, 0.6, 0.5)]"

text \<open>
  \<^verbatim>\<open>font in fontTable ? fontTable[font] : { width: 0.9, height: 1, thickness: 0.9 }\<close>,
  read at \<^verbatim>\<open>width\<close>, \<^verbatim>\<open>height\<close> and \<^verbatim>\<open>thickness\<close>. An inherited value has none of the
  three properties, and \<^verbatim>\<open>undefined\<close> as a factor gives not-a-number.
\<close>

definition fontMultiplier :: "field \<Rightarrow> jsnum \<times> jsnum \<times> jsnum" where
  "fontMultiplier font =
     (case map_of fontTable (toStr font) of
        Some (w, h, t) \<Rightarrow> (Fin w, Fin h, Fin t)
      | None \<Rightarrow>
         if inherited (toStr font) then (NaN, NaN, NaN) else (Fin 0.9, Fin 1, Fin 0.9))"

text \<open>The two offsets of \<^verbatim>\<open>convertText\<close>, computed from the parsed angle.\<close>

definition xOffset :: "jsnum \<Rightarrow> jsnum" where
  "xOffset parsedAngle =
     jsub (Fin (0.5 * - 1.28))
       (jmul (Fin (1.5 * 1.28)) (jsin (jdiv (jmul (Fin pi) parsedAngle) (Fin 180))))"

definition yOffset :: "jsnum \<Rightarrow> jsnum" where
  "yOffset parsedAngle =
     jadd (Fin (1.5 * - 1.28))
       (jmul (Fin 2.54) (jsin (jdiv (jmul (Fin pi) parsedAngle) (Fin 180))))"

definition convertText ::
  "env \<Rightarrow> string list \<Rightarrow> conversionState \<Rightarrow> string \<Rightarrow> parentTransform option
     \<Rightarrow> error + (jsval \<times> conversionState)" where
  "convertText E args st objName parentCoords =
     (let type = arg args 0; x = arg args 1; y = arg args 2; lineWidth = arg args 3;
          angle = arg args 4; layer = arg args 6; fontSize = arg args 8;
          text = arg args 9; display = arg args 11; font = arg args 13 in
      case textLayer E layer st (objName = ''fp_text'') (type = Some ''N'') of
        Inl e \<Rightarrow> Inl e
      | Inr (layerName, st') \<Rightarrow>
         if \<not> truthyVal layerName then Inr (Null, st')
         else
           (let (mWidth, mHeight, mThickness) = fontMultiplier font;
                actualFontWidth = jmul (kiUnits E (ofField fontSize)) mWidth;
                actualFontHeight = jmul (kiUnits E (ofField fontSize)) mHeight;
                parsedAngle = parseFloat E (toStr angle) in
            Inr (Arr [Str objName,
                      if objName = ''fp_text''
                      then (if type = Some ''P'' then Str ''reference'' else Str ''value'')
                      else Null,
                      strOf text,
                      kiAt E (Number (jadd (parseFloat E (toStr x)) (xOffset parsedAngle)))
                             (Number (jadd (parseFloat E (toStr y)) (yOffset parsedAngle)))
                             (ofField angle) parentCoords,
                      Arr [Str ''layer'', layerName],
                      if display = Some ''none'' then Str ''hide'' else Null,
                      Arr [Str ''effects'',
                           Arr [Str ''font'',
                                Arr [Str ''size'', Num actualFontHeight, Num actualFontWidth],
                                Arr [Str ''thickness'',
                                     Num (jmul (kiUnits E (ofField lineWidth)) mThickness)]],
                           Arr [Str ''justify'', Str ''left'',
                                if firstChar layerName = Str ''B'' then Str ''mirror''
                                else Null]]],
                 st')))"

text \<open>\<^verbatim>\<open>transform?.angle || 0\<close>.\<close>

definition angleOrZero :: "parentTransform option \<Rightarrow> jsnum" where
  "angleOrZero transform =
     (case transform of
        None \<Rightarrow> Fin 0
      | Some t \<Rightarrow>
         (case tangle t of
            None \<Rightarrow> Fin 0
          | Some a \<Rightarrow> if truthyNum a then a else Fin 0))"

text \<open>
  \<^verbatim>\<open>convertArc\<close>: \<open>Null\<close> is the \<^verbatim>\<open>null\<close> returned for an unsupported layer, for a
  path that does not match and for a centre that is not a number.
\<close>

definition convertArc ::
  "env \<Rightarrow> string list \<Rightarrow> conversionState \<Rightarrow> string \<Rightarrow> parentTransform option
     \<Rightarrow> error + (jsval \<times> conversionState)" where
  "convertArc E args st objName transform =
     (let width = arg args 0; layer = arg args 1; path = arg args 3 in
      case getLayerName E layer st of
        Inl e \<Rightarrow> Inl e
      | Inr (layerName, st') \<Rightarrow>
         if \<not> truthyVal layerName then Inr (Null, st')
         else
           (case path of
              None \<Rightarrow> Inl (TypeError ''path is undefined'')
            | Some p \<Rightarrow>
               (case matchArcPath (collapseSeparators p) of
                  None \<Rightarrow> Inr (Null, st')
                | Some (startPoint, arcParams) \<Rightarrow>
                   (let sp = split '' '' startPoint;
                        startX = arg sp 0; startY = arg sp 1;
                        ap = split '' '' arcParams;
                        svgRx = arg ap 0; svgRy = arg ap 1; xAxisRotation = arg ap 2;
                        largeArc = arg ap 3; sweep = arg ap 4; endX = arg ap 5;
                        endY = arg ap 6;
                        start = kiCoords E (ofField startX) (ofField startY) transform;
                        end' = kiCoords E (ofField endX) (ofField endY) transform;
                        (rx, ry) = rotate E (kiUnits E (ofField svgRx), kiUnits E (ofField svgRy))
                                     (angleOrZero transform);
                        (cx, cy, extent) =
                           computeArc E (fst start) (snd start) rx ry
                             (parseFloat E (toStr xAxisRotation))
                             (largeArc = Some ''1'') (sweep = Some ''1'')
                             (fst end') (snd end');
                        endPoint = (if sweep = Some ''1'' then start else end') in
                    if isNaN cx \<or> isNaN cy then Inr (Null, st')
                    else Inr (Arr [Str objName,
                                   Arr [Str ''start'', Num cx, Num cy],
                                   Arr [Str ''end'', Num (fst endPoint), Num (snd endPoint)],
                                   Arr [Str ''angle'', Num (jabs extent)],
                                   Arr [Str ''width'', Num (kiUnits E (ofField width))],
                                   Arr [Str ''layer'', layerName]],
                              st')))))"

definition getDrill :: "jsnum \<Rightarrow> jsnum \<Rightarrow> jsval" where
  "getDrill holeRadius holeLength =
     (if truthyNum holeRadius \<and> truthyNum holeLength
      then Arr [Str ''drill'', Str ''oval'', Num (jmul holeRadius (Fin 2)), Num holeLength]
      else if truthyNum holeRadius then Arr [Str ''drill'', Num (jmul holeRadius (Fin 2))]
      else Null)"

text \<open>An element of a number array; beyond the end it is \<^verbatim>\<open>undefined\<close>, which the
  arithmetic below turns into not-a-number.\<close>

definition numAt :: "jsnum list \<Rightarrow> nat \<Rightarrow> jsnum" where
  "numAt ps i = (if i < length ps then ps ! i else NaN)"

fun jlt :: "jsnum \<Rightarrow> jsnum \<Rightarrow> bool" where
  "jlt (Fin a) (Fin b) = (a < b)"
| "jlt _ _ = False"

definition eq :: "jsnum \<Rightarrow> jsnum \<Rightarrow> bool" where
  "eq a b = jlt (jabs (jsub a b)) (Fin 0.01)"

definition isRectangle :: "jsnum list \<Rightarrow> bool" where
  "isRectangle points =
     (if length points \<noteq> 8 then False
      else (let x1 = numAt points 0; y1 = numAt points 1; x2 = numAt points 2;
                y2 = numAt points 3; x3 = numAt points 4; y3 = numAt points 5;
                x4 = numAt points 6; y4 = numAt points 7 in
            (eq x1 x2 \<and> eq y2 y3 \<and> eq x3 x4 \<and> eq y4 y1) \<or>
            (eq y1 y2 \<and> eq x2 x3 \<and> eq y3 y4 \<and> eq x4 x1)))"

text \<open>\<^verbatim>\<open>Math.round(Math.abs(rotation)) % 180 === 90\<close>.\<close>

fun quarterTurn :: "jsnum \<Rightarrow> bool" where
  "quarterTurn (Fin r) = (round \<bar>r\<bar> mod 180 = 90)"
| "quarterTurn NaN = False"

definition rectangleSize :: "jsnum list \<Rightarrow> jsnum \<Rightarrow> jsnum \<times> jsnum" where
  "rectangleSize points rotation =
     (let x1 = numAt points 0; y1 = numAt points 1; x2 = numAt points 2;
          y2 = numAt points 3; x3 = numAt points 4; y3 = numAt points 5;
          x4 = numAt points 6; y4 = numAt points 7;
          width = jsub (jmax (jmax (jmax x1 x2) x3) x4) (jmin (jmin (jmin x1 x2) x3) x4);
          height = jsub (jmax (jmax (jmax y1 y2) y3) y4) (jmin (jmin (jmin y1 y2) y3) y4) in
      if quarterTurn rotation then (height, width) else (width, height))"

definition pointListToPolygon :: "env \<Rightarrow> string list \<Rightarrow> parentTransform option \<Rightarrow> jsval list" where
  "pointListToPolygon E points parentCoords =
     forBy2 0 (int (length points))
       (\<lambda>i. let c = kiCoords E (ofField (arg points i)) (ofField (arg points (i + 1)))
                       parentCoords in
            Arr [Str ''xy'', Num (fst c), Num (snd c)])"

definition padShapes :: "(string \<times> string) list" where
  "padShapes =
     [(''ELLIPSE'', ''circle''), (''RECT'', ''rect''), (''OVAL'', ''oval''),
      (''POLYGON'', ''custom'')]"

text \<open>The layer table local to \<^verbatim>\<open>convertPad\<close>.\<close>

definition padLayers :: "(string \<times> string list) list" where
  "padLayers =
     [(''1'', [''F.Cu'', ''F.Paste'', ''F.Mask'']),
      (''2'', [''B.Cu'', ''B.Paste'', ''B.Mask'']),
      (''11'', [''*.Cu'', ''*.Mask''])]"

text \<open>
  The three constants that \<^verbatim>\<open>convertPad\<close> computes from the shape and the points:
  \<^verbatim>\<open>pointsAreRectangle\<close>, \<^verbatim>\<open>actualShape\<close> and \<^verbatim>\<open>isCustomShape\<close>.
\<close>

definition pointsAreRectangle :: "env \<Rightarrow> field \<Rightarrow> string \<Rightarrow> bool" where
  "pointsAreRectangle E shape pts =
     (map_of padShapes (toStr shape) = Some ''custom''
      \<and> isRectangle (map (parseFloat E) (split '' '' pts)))"

definition actualShape :: "env \<Rightarrow> field \<Rightarrow> string \<Rightarrow> field" where
  "actualShape E shape pts = (if pointsAreRectangle E shape pts then Some ''RECT'' else shape)"

definition isCustomShape :: "env \<Rightarrow> field \<Rightarrow> string \<Rightarrow> bool" where
  "isCustomShape E shape pts = (map_of padShapes (toStr (actualShape E shape pts)) = Some ''custom'')"

text \<open>
  \<^verbatim>\<open>convertPad\<close>. \<open>Inr (Null, st)\<close> is the early \<^verbatim>\<open>return null\<close> of a polygon pad
  without points, taken before the net is resolved. Spreading
  \<^verbatim>\<open>layers[layerId]\<close> throws a \<^verbatim>\<open>TypeError\<close> when the lookup is \<^verbatim>\<open>undefined\<close>, and also
  when it is an inherited value, which cannot be iterated; so does \<^verbatim>\<open>points.split\<close>
  when the field is \<^verbatim>\<open>undefined\<close>. An inherited value under \<^verbatim>\<open>padShapes\<close> is not the
  string \<^verbatim>\<open>custom\<close>, and is emitted as the pad's shape.
\<close>

definition convertPad ::
  "env \<Rightarrow> string list \<Rightarrow> conversionState \<Rightarrow> parentTransform
     \<Rightarrow> error + (jsval \<times> conversionState)" where
  "convertPad E args st transform =
     (let shape = arg args 0; x = arg args 1; y = arg args 2; width = arg args 3;
          height = arg args 4; layerId = arg args 5; net = arg args 6; num = arg args 7;
          holeRadius = arg args 8; points = arg args 9; rotation = arg args 10;
          holeLength = arg args 12;
          centerCoords = kiCoords E (ofField x) (ofField y) None;
          polygonTransform = \<lparr>tx = fst centerCoords, ty = snd centerCoords,
                              tangle = Some (parseFloat E (toStr rotation))\<rparr> in
      case points of
        None \<Rightarrow> Inl (TypeError ''points is undefined'')
      | Some pts \<Rightarrow>
         if isCustomShape E shape pts \<and> pts = [] then Inr (Null, st)
         else
           (let pointList = map (parseFloat E) (split '' '' pts);
                (netId, st') = getNetId st net;
                (actualWidth, actualHeight) =
                   (if pointsAreRectangle E shape pts
                    then rectangleSize pointList (parseFloat E (toStr rotation))
                    else (parseFloat E (toStr width), parseFloat E (toStr height)));
                padNum = parseInt E (toStr num);
                swap = jgt actualWidth actualHeight;
                realWidth = (if swap then actualHeight else actualWidth);
                realHeight = (if swap then actualWidth else actualHeight);
                realRotation = (if swap then jsub (parseFloat E (toStr rotation)) (Fin 90)
                                else parseFloat E (toStr rotation)) in
            case map_of padLayers (toStr layerId) of
              None \<Rightarrow> Inl (TypeError ''layers[layerId] is not iterable'')
            | Some padLayerNames \<Rightarrow>
               Inr (Arr [Str ''pad'',
                         (case padNum of None \<Rightarrow> strOf num | Some n \<Rightarrow> ofInt n),
                         if jgt (kiUnits E (ofField holeRadius)) (Fin 0)
                         then Str ''thru_hole'' else Str ''smd'',
                         (case map_of padShapes (toStr (actualShape E shape pts)) of
                            None \<Rightarrow> if inherited (toStr (actualShape E shape pts))
                                    then Inherited (toStr (actualShape E shape pts))
                                    else Undefined
                          | Some sh \<Rightarrow> Str sh),
                         kiAt E (ofField x) (ofField y) (Number realRotation) (Some transform),
                         Arr [Str ''size'',
                              Num (jmax (kiUnits E (Number realWidth)) (Fin 0.01)),
                              Num (jmax (kiUnits E (Number realHeight)) (Fin 0.01))],
                         Arr (Str ''layers'' # map Str padLayerNames),
                         getDrill (kiUnits E (ofField holeRadius))
                                  (kiUnits E (ofField holeLength)),
                         if netId > 0 then Arr [Str ''net'', ofInt netId, strOf net] else Null,
                         if isCustomShape E shape pts
                         then Arr [Str ''primitives'',
                                   Arr [Str ''gr_poly'',
                                        Arr (Str ''pts'' #
                                             pointListToPolygon E (split '' '' pts)
                                               (Some polygonTransform)),
                                        Arr [Str ''width'', Num (Fin 0.1)]]]
                         else Null],
                    st')))"

definition convertLibHole :: "env \<Rightarrow> string list \<Rightarrow> parentTransform \<Rightarrow> jsval" where
  "convertLibHole E args transform =
     (let x = arg args 0; y = arg args 1; radius = arg args 2;
          size = jmul (kiUnits E (ofField radius)) (Fin 2) in
      Arr [Str ''pad'', Str '''', Str ''np_thru_hole'', Str ''circle'',
           kiAt E (ofField x) (ofField y) Absent (Some transform),
           Arr [Str ''size'', Num size, Num size],
           Arr [Str ''drill'', Num size],
           Arr [Str ''layers'', Str ''*.Cu'', Str ''*.Mask'']])"

definition convertCircle ::
  "env \<Rightarrow> string list \<Rightarrow> conversionState \<Rightarrow> string \<Rightarrow> parentTransform option
     \<Rightarrow> error + (jsval \<times> conversionState)" where
  "convertCircle E args st type parentCoords =
     (let x = arg args 0; y = arg args 1; radius = arg args 2; strokeWidth = arg args 3;
          layer = arg args 4 in
      case getLayerName E layer st of
        Inl e \<Rightarrow> Inl e
      | Inr (layerName, st') \<Rightarrow>
         if \<not> truthyVal layerName then Inr (Null, st')
         else (let center = kiCoords E (ofField x) (ofField y) parentCoords in
               Inr (Arr [Str type,
                         Arr [Str ''center'', Num (fst center), Num (snd center)],
                         Arr [Str ''end'',
                              Num (jadd (fst center) (kiUnits E (ofField radius))),
                              Num (snd center)],
                         Arr [Str ''layer'', layerName],
                         Arr [Str ''width'', Num (kiUnits E (ofField strokeWidth))]],
                    st')))"

definition isPathSeparator :: "char \<Rightarrow> bool" where
  "isPathSeparator c = (c \<in> set '' ,LM'')"

text \<open>\<^verbatim>\<open>path.split(/[ ,LM]/).filter((p) => !isNaN(parseFloat(p)))\<close>.\<close>

definition pathNumbers :: "env \<Rightarrow> string \<Rightarrow> string list" where
  "pathNumbers E path =
     filter (\<lambda>p. \<not> isNaN (parseFloat E p)) (splitClass isPathSeparator path)"

text \<open>\<^verbatim>\<open>pathToPolygon\<close>: \<open>Inr None\<close> is \<^verbatim>\<open>null\<close>.\<close>

definition pathToPolygon ::
  "env \<Rightarrow> field \<Rightarrow> parentTransform option \<Rightarrow> error + jsval list option" where
  "pathToPolygon E path parentCoords =
     (case path of
        None \<Rightarrow> Inl (TypeError ''path is undefined'')
      | Some p \<Rightarrow>
         if CHR ''A'' \<in> set p then Inr None
         else Inr (Some (pointListToPolygon E (pathNumbers E p) parentCoords)))"

definition convertPolygon ::
  "env \<Rightarrow> string list \<Rightarrow> conversionState \<Rightarrow> parentTransform option
     \<Rightarrow> error + (jsval \<times> conversionState)" where
  "convertPolygon E args st parentCoords =
     (let layerId = arg args 0; path = arg args 2; type = arg args 3 in
      if type \<noteq> Some ''solid'' then Inr (Null, st)
      else
        (case getLayerName E layerId st of
           Inl e \<Rightarrow> Inl e
         | Inr (layerName, st') \<Rightarrow>
            if \<not> truthyVal layerName then Inr (Null, st')
            else
              (case pathToPolygon E path parentCoords of
                 Inl e \<Rightarrow> Inl e
               | Inr None \<Rightarrow> Inr (Null, st')
               | Inr (Some polygonPoints) \<Rightarrow>
                  Inr (Arr [Str ''fp_poly'',
                            Arr (Str ''pts'' # polygonPoints),
                            Arr [Str ''layer'', layerName],
                            Arr [Str ''width'', Num (Fin 0)]],
                       st'))))"

text \<open>
  One round of the loop of \<^verbatim>\<open>convertLib\<close> over the embedded shapes: the values
  pushed to \<^verbatim>\<open>shapes\<close> and the state after the round.
\<close>

definition convertLibShape ::
  "env \<Rightarrow> parentTransform \<Rightarrow> string \<Rightarrow> conversionState
     \<Rightarrow> error + (jsval list \<times> conversionState)" where
  "convertLibShape E transform shape st =
     (let parts = split ''~'' shape; type = hd parts; shapeArgs = tl parts in
      if type = ''TRACK'' then convertTrack E shapeArgs st ''fp_line'' (Some transform)
      else if type = ''TEXT'' then
        (case convertText E shapeArgs st ''fp_text'' (Some transform) of
           Inl e \<Rightarrow> Inl e | Inr (v, st') \<Rightarrow> Inr ([v], st'))
      else if type = ''ARC'' then
        (case convertArc E shapeArgs st ''fp_arc'' (Some transform) of
           Inl e \<Rightarrow> Inl e | Inr (v, st') \<Rightarrow> Inr ([v], st'))
      else if type = ''HOLE'' then Inr ([convertLibHole E shapeArgs transform], st)
      else if type = ''PAD'' then
        (case convertPad E shapeArgs st transform of
           Inl e \<Rightarrow> Inl e | Inr (v, st') \<Rightarrow> Inr ([v], st'))
      else if type = ''CIRCLE'' then
        (case convertCircle E shapeArgs st ''fp_circle'' (Some transform) of
           Inl e \<Rightarrow> Inl e | Inr (v, st') \<Rightarrow> Inr ([v], st'))
      else if type = ''SOLIDREGION'' then
        (case convertPolygon E shapeArgs st (Some transform) of
           Inl e \<Rightarrow> Inl e | Inr (v, st') \<Rightarrow> Inr ([v], st'))
      else Inr ([], st))"

fun convertLibShapes ::
  "env \<Rightarrow> parentTransform \<Rightarrow> string list \<Rightarrow> conversionState
     \<Rightarrow> error + (jsval list \<times> conversionState)" where
  "convertLibShapes E transform [] st = Inr ([], st)"
| "convertLibShapes E transform (shape # rest) st =
     (case convertLibShape E transform shape st of
        Inl e \<Rightarrow> Inl e
      | Inr (vs, st1) \<Rightarrow>
         (case convertLibShapes E transform rest st1 of
            Inl e \<Rightarrow> Inl e
          | Inr (ws, st2) \<Rightarrow> Inr (vs @ ws, st2)))"

text \<open>\<^verbatim>\<open>shape && shape[0] === 'pad' && shape[2] === 'smd'\<close>.\<close>

fun isSmdPad :: "jsval \<Rightarrow> bool" where
  "isSmdPad (Arr (a # b # c # rest)) = (a = Str ''pad'' \<and> c = Str ''smd'')"
| "isSmdPad _ = False"

text \<open>
  The attribute object of \<^verbatim>\<open>convertLib\<close>: the key and value written by each round
  of the loop; a later write to the same key wins.
\<close>

definition attrPairs :: "string list \<Rightarrow> (string \<times> field) list" where
  "attrPairs attrList =
     forBy2 0 (int (length attrList)) (\<lambda>i. (attrList ! i, arg attrList (i + 1)))"

definition attrPackage :: "string list \<Rightarrow> field" where
  "attrPackage attrList =
     (case map_of (rev (attrPairs attrList)) ''package'' of None \<Rightarrow> None | Some v \<Rightarrow> v)"

definition convertLib ::
  "env \<Rightarrow> string list \<Rightarrow> conversionState \<Rightarrow> error + (jsval \<times> conversionState)" where
  "convertLib E args st =
     (let x = arg args 0; y = arg args 1; attributes = arg args 2; rotation = arg args 3;
          id' = arg args 5; locked = arg args 9;
          shapeList = tl (split ''#@$'' (join ''~'' args)) in
      case attributes of
        None \<Rightarrow> Inl (TypeError ''attributes is undefined'')
      | Some attrs \<Rightarrow>
         (let attrList = split ''`'' attrs;
              c = kiCoords E (ofField x) (ofField y) None;
              transform = \<lparr>tx = fst c, ty = snd c, tangle = kiAngle E rotation\<rparr> in
          case convertLibShapes E transform shapeList st of
            Inl e \<Rightarrow> Inl e
          | Inr (converted, st') \<Rightarrow>
             (let shapes = converted @
                    [Arr [Str ''fp_text'', Str ''user'', strOf id',
                          Arr [Str ''at'', Num (Fin 0), Num (Fin 0)],
                          Arr [Str ''layer'', Str ''Cmts.User''],
                          Arr [Str ''effects'',
                               Arr [Str ''font'',
                                    Arr [Str ''size'', Num (Fin 1), Num (Fin 1)],
                                    Arr [Str ''thickness'', Num (Fin 0.15)]]]]];
                  modAttrs = (if list_ex isSmdPad shapes
                              then [Arr [Str ''attr'', Str ''smd'']] else []);
                  footprintName =
                     ''easyeda:'' @ toStr (if truthy (attrPackage attrList)
                                          then attrPackage attrList else id') in
              Inr (Arr ([Str ''module'', Str footprintName,
                         if locked = Some ''1'' then Str ''locked'' else Null,
                         Arr [Str ''layer'', Str ''F.Cu''],
                         kiAt E (ofField x) (ofField y) (ofField rotation) None]
                        @ modAttrs @ shapes),
                   st'))))"

definition convertCopperArea ::
  "env \<Rightarrow> string list \<Rightarrow> conversionState \<Rightarrow> error + (jsval \<times> conversionState)" where
  "convertCopperArea E args st =
     (let layerId = arg args 1; net = arg args 2; path = arg args 3;
          clearanceWidth = arg args 4;
          (netId, st1) = getNetId st net in
      case getLayerName E layerId st1 of
        Inl e \<Rightarrow> Inl e
      | Inr (layerName, st2) \<Rightarrow>
         if \<not> truthyVal layerName then Inr (Null, st2)
         else
           (case path of
              None \<Rightarrow> Inl (TypeError ''path is undefined'')
            | Some p \<Rightarrow>
               (let pointList = pathNumbers E p;
                    polygonPoints =
                       forBy2 0 (int (length pointList))
                         (\<lambda>i. let c = kiCoords E (ofField (arg pointList i))
                                        (ofField (arg pointList (i + 1))) None in
                              Arr [Str ''xy'', Num (fst c), Num (snd c)]) in
                Inr (Arr [Str ''zone'',
                          Arr [Str ''net'', ofInt netId],
                          Arr [Str ''net_name'', strOf net],
                          Arr [Str ''layer'', layerName],
                          Arr [Str ''hatch'', Str ''edge'', Num (Fin 0.508)],
                          Arr [Str ''connect_pads'',
                               Arr [Str ''clearance'', Num (kiUnits E (ofField clearanceWidth))]],
                          Arr [Str ''polygon'', Arr (Str ''pts'' # polygonPoints)]],
                     st2))))"

text \<open>
  \<^verbatim>\<open>convertSolidRegion\<close>: the net is resolved after the path has been read, also
  when the path gave \<^verbatim>\<open>null\<close>.
\<close>

definition convertSolidRegion ::
  "env \<Rightarrow> string list \<Rightarrow> conversionState \<Rightarrow> error + (jsval \<times> conversionState)" where
  "convertSolidRegion E args st =
     (let layerId = arg args 0; net = arg args 1; path = arg args 2; type = arg args 3 in
      case getLayerName E layerId st of
        Inl e \<Rightarrow> Inl e
      | Inr (layerName, st1) \<Rightarrow>
         if \<not> truthyVal layerName then Inr (Null, st1)
         else
           (case pathToPolygon E path None of
              Inl e \<Rightarrow> Inl e
            | Inr polygonPoints \<Rightarrow>
               (let (netId, st2) = getNetId st1 net in
                case polygonPoints of
                  None \<Rightarrow> Inr (Null, st2)
                | Some pts \<Rightarrow>
                   if type = Some ''cutout'' then
                     Inr (Arr [Str ''zone'',
                               Arr [Str ''net'', ofInt netId],
                               Arr [Str ''net_name'', Str ''''],
                               Arr [Str ''hatch'', Str ''edge'', Num (Fin 0.508)],
                               Arr [Str ''layer'', layerName],
                               Arr [Str ''keepout'',
                                    Arr [Str ''tracks'', Str ''allowed''],
                                    Arr [Str ''vias'', Str ''allowed''],
                                    Arr [Str ''copperpour'', Str ''not_allowed'']],
                               Arr [Str ''polygon'', Arr (Str ''pts'' # pts)]],
                          st2)
                   else if type = Some ''solid'' \<or> type = Some ''npth'' then
                     Inr (Arr [Str ''gr_poly'',
                               Arr (Str ''pts'' # pts),
                               Arr [Str ''layer'', layerName],
                               Arr [Str ''width'', Num (Fin 0)]],
                          st2)
                   else Inr (Null, st2))))"

text \<open>The empty reference and value texts and the hole pad of a generated module.\<close>

definition emptyFpText :: "string \<Rightarrow> jsval" where
  "emptyFpText kind =
     Arr [Str ''fp_text'', Str kind, Str '''',
          Arr [Str ''at'', Num (Fin 0), Num (Fin 0)], Arr [Str ''layer'', Str ''F.SilkS'']]"

definition convertHole :: "env \<Rightarrow> string list \<Rightarrow> jsval" where
  "convertHole E args =
     (let x = arg args 0; y = arg args 1; radius = arg args 2; locked = arg args 4;
          size = jmul (kiUnits E (ofField radius)) (Fin 2) in
      Arr [Str ''module'',
           Str (''AutoGenerated:MountingHole_'' @ toFixed2 E size @ ''mm''),
           if locked = Some ''1'' then Str ''locked'' else Null,
           Arr [Str ''layer'', Str ''F.Cu''],
           kiAt E (ofField x) (ofField y) Absent None,
           Arr [Str ''attr'', Str ''virtual''],
           emptyFpText ''reference'',
           emptyFpText ''value'',
           Arr [Str ''pad'', Str '''', Str ''np_thru_hole'', Str ''circle'',
                Arr [Str ''at'', Num (Fin 0), Num (Fin 0)],
                Arr [Str ''size'', Num size, Num size],
                Arr [Str ''drill'', Num size],
                Arr [Str ''layers'', Str ''*.Cu'', Str ''*.Mask'']]])"

definition convertPadToVia ::
  "env \<Rightarrow> string list \<Rightarrow> conversionState \<Rightarrow> parentTransform option
     \<Rightarrow> error + (jsval \<times> conversionState)" where
  "convertPadToVia E args st parentCoords =
     (let shape = arg args 0; x = arg args 1; y = arg args 2; holeRadius = arg args 3;
          net = arg args 6; drill = arg args 8; locked = arg args 15;
          size = kiUnits E (ofField holeRadius) in
      if shape \<noteq> Some ''ELLIPSE'' then
        (let c = kiCoords E (ofField x) (ofField y) None in
         case convertPad E args st \<lparr>tx = fst c, ty = snd c, tangle = Some (Fin 0)\<rparr> of
           Inl e \<Rightarrow> Inl e
         | Inr (pad, st') \<Rightarrow>
            Inr (Arr [Str ''module'',
                      Str (''AutoGenerated:Pad_'' @ toFixed2 E size @ ''mm''),
                      if locked = Some ''1'' then Str ''locked'' else Null,
                      Arr [Str ''layer'', Str ''F.Cu''],
                      kiAt E (ofField x) (ofField y) Absent None,
                      Arr [Str ''attr'', Str ''virtual''],
                      emptyFpText ''reference'',
                      emptyFpText ''value'',
                      pad],
                 st'))
      else
        (let (netId, st') = getNetId st net in
         Inr (Arr [Str ''via'',
                   kiAt E (ofField x) (ofField y) Absent parentCoords,
                   Arr [Str ''size'', Num (kiUnits E (ofField holeRadius))],
                   Arr [Str ''drill'', Num (jmul (kiUnits E (ofField drill)) (Fin 2))],
                   Arr [Str ''layers'', Str ''F.Cu'', Str ''B.Cu''],
                   Arr [Str ''net'', ofInt netId]],
              st')))"

text \<open>
  \<^verbatim>\<open>convertShape\<close>: \<open>Some nodes\<close> is the returned array, \<open>None\<close> the \<^verbatim>\<open>null\<close> of an
  unsupported shape type.
\<close>

definition single ::
  "error + (jsval \<times> conversionState) \<Rightarrow> error + (jsval list option \<times> conversionState)" where
  "single r = (case r of Inl e \<Rightarrow> Inl e | Inr (v, st') \<Rightarrow> Inr (Some [v], st'))"

definition convertShape ::
  "env \<Rightarrow> string \<Rightarrow> conversionState \<Rightarrow> error + (jsval list option \<times> conversionState)" where
  "convertShape E shape st =
     (let parts = split ''~'' shape; type = hd parts; args = tl parts in
      if type = ''VIA'' then single (Inr (convertVia E args st None))
      else if type = ''TRACK'' then
        (case convertTrack E args st ''segment'' None of
           Inl e \<Rightarrow> Inl e | Inr (vs, st') \<Rightarrow> Inr (Some vs, st'))
      else if type = ''TEXT'' then single (convertText E args st ''gr_text'' None)
      else if type = ''ARC'' then single (convertArc E args st ''gr_arc'' None)
      else if type = ''COPPERAREA'' then single (convertCopperArea E args st)
      else if type = ''SOLIDREGION'' then single (convertSolidRegion E args st)
      else if type = ''CIRCLE'' then single (convertCircle E args st ''gr_circle'' None)
      else if type = ''HOLE'' then single (Inr (convertHole E args, st))
      else if type = ''LIB'' then single (convertLib E args st)
      else if type = ''PAD'' then single (convertPadToVia E args st None)
      else Inr (None, st))"

section \<open>The board\<close>

text \<open>
  The input board: the net names of \<^verbatim>\<open>input.routerRule\<close> (\<open>None\<close> when the board
  has no router rule) and the shape records.
\<close>

record board =
  routerRule :: "string list option"
  shape :: "string list"

text \<open>
  \<^verbatim>\<open>input.shape.map(async (shape) => convertShape(shape, conversionState))\<close> under
  \<^verbatim>\<open>Promise.all\<close>: the shapes are converted in order, each on the state the one before
  left. When a conversion throws, \<^verbatim>\<open>Promise.all\<close> rejects with the first error thrown
  and no result of any shape is used; this is \<open>Inl\<close>.
\<close>

fun convertShapes ::
  "env \<Rightarrow> string list \<Rightarrow> conversionState
     \<Rightarrow> error + (jsval list option list \<times> conversionState)" where
  "convertShapes E [] st = Inr ([], st)"
| "convertShapes E (s # rest) st =
     (case convertShape E s st of
        Inl e \<Rightarrow> Inl e
      | Inr (r, st1) \<Rightarrow>
         (case convertShapes E rest st1 of
            Inl e \<Rightarrow> Inl e
          | Inr (rs, st2) \<Rightarrow> Inr (r # rs, st2)))"

text \<open>
  \<^verbatim>\<open>flatten\<close>, as the earlier engine file defines it: \<^verbatim>\<open>[].concat(...arr)\<close> spreads the
  arrays and keeps a \<^verbatim>\<open>null\<close>.
\<close>

definition flatten :: "jsval list option list \<Rightarrow> jsval list" where
  "flatten arr = concat (map (\<lambda>r. case r of None \<Rightarrow> [Null] | Some vs \<Rightarrow> vs) arr)"

definition notNullish :: "jsval \<Rightarrow> bool" where
  "notNullish obj = (obj \<noteq> Null \<and> obj \<noteq> Undefined)"

text \<open>
  The conversion state with which \<^verbatim>\<open>convertBoardToArray\<close> starts: \<^verbatim>\<open>nets\<close> is the
  array of the input's router rule itself (a fresh empty array when there is no
  router rule), and \<^verbatim>\<open>nets.unshift('')\<close> has put the empty name in front of it.
\<close>

definition initialState :: "board \<Rightarrow> conversionState" where
  "initialState input =
     \<lparr>nets = '''' # (case routerRule input of None \<Rightarrow> [] | Some ns \<Rightarrow> ns),
      innerLayers = 0\<rparr>"

definition innerLayerRows :: "int \<Rightarrow> jsval list" where
  "innerLayerRows n =
     map (\<lambda>i. Arr [ofInt i, Str (''In'' @ showInt i @ ''.Cu''), Str ''signal'']) [1..n]"

definition layerRows :: "int \<Rightarrow> jsval list" where
  "layerRows n =
     [Arr [ofInt 0, Str ''F.Cu'', Str ''signal'']]
     @ innerLayerRows n
     @ [Arr [ofInt 31, Str ''B.Cu'', Str ''signal''],
        Arr [ofInt 32, Str ''B.Adhes'', Str ''user''],
        Arr [ofInt 33, Str ''F.Adhes'', Str ''user''],
        Arr [ofInt 34, Str ''B.Paste'', Str ''user''],
        Arr [ofInt 35, Str ''F.Paste'', Str ''user''],
        Arr [ofInt 36, Str ''B.SilkS'', Str ''user''],
        Arr [ofInt 37, Str ''F.SilkS'', Str ''user''],
        Arr [ofInt 38, Str ''B.Mask'', Str ''user''],
        Arr [ofInt 39, Str ''F.Mask'', Str ''user''],
        Arr [ofInt 40, Str ''Dwgs.User'', Str ''user''],
        Arr [ofInt 41, Str ''Cmts.User'', Str ''user''],
        Arr [ofInt 42, Str ''Eco1.User'', Str ''user''],
        Arr [ofInt 43, Str ''Eco2.User'', Str ''user''],
        Arr [ofInt 44, Str ''Edge.Cuts'', Str ''user''],
        Arr [ofInt 45, Str ''Margin'', Str ''user''],
        Arr [ofInt 46, Str ''B.CrtYd'', Str ''user''],
        Arr [ofInt 47, Str ''F.CrtYd'', Str ''user''],
        Arr [ofInt 48, Str ''B.Fab'', Str ''user'', Str ''hide''],
        Arr [ofInt 49, Str ''F.Fab'', Str ''user'', Str ''hide'']]"

definition netRows :: "string list \<Rightarrow> jsval list" where
  "netRows ns = map (\<lambda>(idx, net). Arr [Str ''net'', ofInt (int idx), Str net]) (enumerate 0 ns)"

text \<open>
  \<^verbatim>\<open>convertBoardToArray\<close>: the returned tree together with the input object as the
  call leaves it. The net table of the conversion state is the input's own array,
  so the input's router rule holds the final table; an input without a router rule
  is left as it was. What the input holds after a thrown error is not described.
\<close>

definition convertBoardToArray :: "env \<Rightarrow> board \<Rightarrow> error + (jsval \<times> board)" where
  "convertBoardToArray E input =
     (case convertShapes E (shape input) (initialState input) of
        Inl e \<Rightarrow> Inl e
      | Inr (results, st) \<Rightarrow>
         (let shapes = flatten results;
              outputObjs = filter notNullish (netRows (nets st) @ shapes) in
          Inr (Arr ([Str ''kicad_pcb'',
                     Arr [Str ''version'', ofInt 20171130],
                     Arr [Str ''host'', Str ''pcbnew'', Str ''(5.1.5)-3''],
                     Arr [Str ''page'', Str ''A4''],
                     Arr (Str ''layers'' # layerRows (innerLayers st))]
                    @ outputObjs),
               input\<lparr>routerRule := map_option (\<lambda>_. nets st) (routerRule input)\<rparr>)))"

section \<open>A sample environment\<close>

text \<open>
  An environment for evaluating the converters on concrete records. The parsers
  read plain decimal numerals (white space, a sign, digits, a fraction) the way the
  built-ins do; exponents and \<^verbatim>\<open>Infinity\<close> are not read.
\<close>

definition digitsValue :: "string \<Rightarrow> nat" where
  "digitsValue ds = foldl (\<lambda>a c. 10 * a + (of_char c - 48)) 0 ds"

definition signOf :: "string \<Rightarrow> int \<times> string" where
  "signOf t =
     (case t of
        [] \<Rightarrow> (1, [])
      | c # r \<Rightarrow> if c = CHR ''-'' then (-1, r) else if c = CHR ''+'' then (1, r) else (1, t))"

definition decimalParseInt :: "string \<Rightarrow> int option" where
  "decimalParseInt s =
     (let (sg, u) = signOf (dropWhile isSpace s); ds = takeWhile isDigit u in
      if ds = [] then None else Some (sg * int (digitsValue ds)))"

definition decimalParseFloat :: "string \<Rightarrow> jsnum" where
  "decimalParseFloat s =
     (let (sg, u) = signOf (dropWhile isSpace s);
          ip = takeWhile isDigit u;
          fp = (case dropWhile isDigit u of
                  [] \<Rightarrow> []
                | c # r \<Rightarrow> if c = CHR ''.'' then takeWhile isDigit r else []) in
      if ip = [] \<and> fp = [] then NaN
      else Fin (of_int sg * (real (digitsValue ip) + real (digitsValue fp) / 10 ^ length fp)))"

text \<open>\<^verbatim>\<open>parseFloat\<close> of an argument that is a string, a number or \<^verbatim>\<open>undefined\<close>.\<close>

fun argNumber :: "jsarg \<Rightarrow> jsnum" where
  "argNumber (Text s) = decimalParseFloat s"
| "argNumber (Number n) = n"
| "argNumber Absent = NaN"

text \<open>
  The point functions follow the earlier engine file, where \<^verbatim>\<open>kiCoords\<close> subtracts
  the origin (4000, 3000) and scales, and \<^verbatim>\<open>kiAt\<close> and \<^verbatim>\<open>kiStartEnd\<close> subtract the
  parent's origin. The parent's angle is not applied.
\<close>

definition legacyKiCoords :: "jsarg \<Rightarrow> jsarg \<Rightarrow> parentTransform option \<Rightarrow> coords" where
  "legacyKiCoords x y parentCoords =
     (let cx = jmul (jmul (jsub (argNumber x) (Fin 4000)) (Fin 10)) (Fin 0.0254);
          cy = jmul (jmul (jsub (argNumber y) (Fin 3000)) (Fin 10)) (Fin 0.0254) in
      case parentCoords of
        None \<Rightarrow> (cx, cy)
      | Some t \<Rightarrow> (jsub cx (tx t), jsub cy (ty t)))"

definition legacyKiAt ::
  "jsarg \<Rightarrow> jsarg \<Rightarrow> jsarg \<Rightarrow> parentTransform option \<Rightarrow> jsval" where
  "legacyKiAt x y angle parentCoords =
     (let c = legacyKiCoords x y parentCoords; a = argNumber angle in
      Arr [Str ''at'', Num (fst c), Num (snd c),
           if \<not> isNaN a
           then Num (if jgt a (Fin 180) then jneg (jsub (Fin 360) a) else a)
           else Null])"

text \<open>A rotation by an angle in degrees.\<close>

fun planeRotate :: "coords \<Rightarrow> jsnum \<Rightarrow> coords" where
  "planeRotate (Fin x, Fin y) (Fin d) =
     (Fin (x * cos (d / 180 * pi) - y * sin (d / 180 * pi)),
      Fin (x * sin (d / 180 * pi) + y * cos (d / 180 * pi)))"
| "planeRotate _ _ = (NaN, NaN)"

text \<open>
  The arc of the earlier engine file: a half circle over the chord, whose centre is
  the midpoint of the chord and whose extent is 180 degrees.
\<close>

definition halfCircleArc ::
  "jsnum \<Rightarrow> jsnum \<Rightarrow> jsnum \<Rightarrow> jsnum \<Rightarrow> jsnum \<Rightarrow> bool \<Rightarrow> bool \<Rightarrow> jsnum \<Rightarrow> jsnum
     \<Rightarrow> jsnum \<times> jsnum \<times> jsnum" where
  "halfCircleArc x1 y1 rx ry phi largeArc sweep x2 y2 =
     (jdiv (jadd x1 x2) (Fin 2), jdiv (jadd y1 y2) (Fin 2), Fin 180)"

fun fixed2 :: "jsnum \<Rightarrow> string" where
  "fixed2 NaN = ''NaN''"
| "fixed2 (Fin x) =
     (let n = nat (round (\<bar>x\<bar> * 100)) in
      (if x < 0 \<and> n > 0 then ''-'' else [])
      @ showNat (n div 100) @ ''.'' @ showNat (n mod 100 div 10) @ showNat (n mod 10))"

definition sampleEnv :: env where
  "sampleEnv =
     \<lparr>parseFloat = decimalParseFloat, parseInt = decimalParseInt,
      kiCoords = legacyKiCoords, kiAt = legacyKiAt, rotate = planeRotate,
      computeArc = halfCircleArc, toFixed2 = fixed2\<rparr>"

section \<open>Reading the input\<close>

text \<open>
  A layer id that \<^verbatim>\<open>getLayerName\<close> finds nowhere: it is no key of the static table
  and no inherited name, and its integer value, if it has one, lies neither in
  21..50 nor in 99..199.
\<close>

definition unknownLayer :: "env \<Rightarrow> string \<Rightarrow> bool" where
  "unknownLayer E k =
     (map_of layers k = None \<and> \<not> inherited k \<and>
      (case parseInt E k of
         None \<Rightarrow> True
       | Some n \<Rightarrow> \<not> (21 \<le> n \<and> n \<le> 50) \<and> \<not> (99 \<le> n \<and> n < 200)))"

text \<open>
  The field of a record that its converter passes to \<^verbatim>\<open>getLayerName\<close>, for a record
  of the board and for a record inside a footprint: the second field of a track,
  an arc and a copper area, the seventh of a text, the fifth of a circle and the
  first of a solid region (inside a footprint only when the region's type is
  \<^verbatim>\<open>solid\<close>). \<open>None\<close> for the records whose converters resolve no layer.
\<close>

definition boardLayerId :: "string \<Rightarrow> string list \<Rightarrow> field option" where
  "boardLayerId type args =
     (if type = ''TRACK'' \<or> type = ''ARC'' \<or> type = ''COPPERAREA'' then Some (arg args 1)
      else if type = ''TEXT'' then Some (arg args 6)
      else if type = ''CIRCLE'' then Some (arg args 4)
      else if type = ''SOLIDREGION'' then Some (arg args 0)
      else None)"

definition footprintLayerId :: "string \<Rightarrow> string list \<Rightarrow> field option" where
  "footprintLayerId type args =
     (if type = ''TRACK'' \<or> type = ''ARC'' then Some (arg args 1)
      else if type = ''TEXT'' then Some (arg args 6)
      else if type = ''CIRCLE'' then Some (arg args 4)
      else if type = ''SOLIDREGION'' \<and> arg args 3 = Some ''solid'' then Some (arg args 0)
      else None)"

section \<open>Reading the output\<close>

text \<open>The children of a node, and \<^verbatim>\<open>node[i]\<close>.\<close>

fun children :: "jsval \<Rightarrow> jsval list" where
  "children (Arr vs) = vs"
| "children _ = []"

definition child :: "jsval \<Rightarrow> nat \<Rightarrow> jsval" where
  "child node i = (if i < length (children node) then children node ! i else Undefined)"

text \<open>A net field is a child node whose tag is \<^verbatim>\<open>net\<close>.\<close>

fun isNetField :: "jsval \<Rightarrow> bool" where
  "isNetField (Arr (Str tag # rest)) = (tag = ''net'')"
| "isNetField _ = False"

text \<open>The input object after a run of \<^verbatim>\<open>convertBoardToArray\<close> that returned.\<close>

fun inputAfter :: "error + (jsval \<times> board) \<Rightarrow> board option" where
  "inputAfter (Inl e) = None"
| "inputAfter (Inr (tree, input')) = Some input'"

text \<open>
  How the conversion state may change: the net table keeps its entries at their
  indices and grows at the end; the inner layer count does not decrease.
\<close>

definition grows :: "conversionState \<Rightarrow> conversionState \<Rightarrow> bool" where
  "grows st st' = (prefix (nets st) (nets st') \<and> innerLayers st \<le> innerLayers st')"

section \<open>Properties\<close>

lemma showNat_nonempty: "showNat n \<noteq> []"
  by (subst showNat.simps) simp

lemma getLayerName_name_nonempty:
  "getLayerName E i st = Inr (Str name, st') \<Longrightarrow> name \<noteq> []"
  by (auto simp: getLayerName_def layers_def Let_def showNat_nonempty showInt_def
           split: option.splits if_splits)

lemma grows_refl: "grows st st"
  by (simp add: grows_def)

lemma grows_trans: "grows a b \<Longrightarrow> grows b c \<Longrightarrow> grows a c"
  by (auto simp: grows_def)

lemma getNetId_grows: "getNetId st n = (i, st') \<Longrightarrow> grows st st'"
  by (auto simp: getNetId_def grows_def Let_def split: if_splits)

lemma getLayerName_grows: "getLayerName E i st = Inr (r, st') \<Longrightarrow> grows st st'"
  by (auto simp: getLayerName_def grows_def Let_def split: option.splits if_splits)

lemma textLayer_grows: "textLayer E l st f n = Inr (r, st') \<Longrightarrow> grows st st'"
  by (auto simp: textLayer_def split: sum.splits if_splits jsval.splits dest: getLayerName_grows)

lemma convertVia_grows: "convertVia E args st p = (v, st') \<Longrightarrow> grows st st'"
  by (auto simp: convertVia_def Let_def split: prod.splits dest: getNetId_grows)

lemma convertTrack_grows: "convertTrack E args st objName p = Inr (vs, st') \<Longrightarrow> grows st st'"
  by (auto simp: convertTrack_def Let_def
           split: prod.splits option.splits sum.splits if_splits jsval.splits
           dest!: getNetId_grows getLayerName_grows intro: grows_trans)

lemma convertText_grows: "convertText E args st objName p = Inr (v, st') \<Longrightarrow> grows st st'"
  by (auto simp: convertText_def Let_def split: prod.splits option.splits sum.splits if_splits
           dest!: textLayer_grows)

lemma convertArc_grows: "convertArc E args st objName p = Inr (v, st') \<Longrightarrow> grows st st'"
  by (auto simp: convertArc_def Let_def split: prod.splits option.splits sum.splits if_splits
           dest!: getLayerName_grows)

lemma convertPad_grows: "convertPad E args st t = Inr (v, st') \<Longrightarrow> grows st st'"
  by (auto simp: convertPad_def Let_def grows_refl split: prod.splits option.splits sum.splits if_splits
           dest!: getNetId_grows)

lemma convertCircle_grows: "convertCircle E args st kind p = Inr (v, st') \<Longrightarrow> grows st st'"
  by (auto simp: convertCircle_def Let_def split: prod.splits option.splits sum.splits if_splits
           dest!: getLayerName_grows)

lemma convertPolygon_grows: "convertPolygon E args st p = Inr (v, st') \<Longrightarrow> grows st st'"
  by (auto simp: convertPolygon_def Let_def grows_refl split: prod.splits option.splits sum.splits if_splits
           dest!: getLayerName_grows)


lemma convertLibShape_grows: "convertLibShape E t s st = Inr (vs, st') \<Longrightarrow> grows st st'"
  by (auto simp: convertLibShape_def Let_def grows_refl split: sum.splits if_splits
           dest: convertTrack_grows convertText_grows convertArc_grows convertPad_grows
                 convertCircle_grows convertPolygon_grows)

lemma convertLibShapes_grows: "convertLibShapes E t shapes st = Inr (vs, st') \<Longrightarrow> grows st st'"
proof (induction shapes arbitrary: st vs)
  case Nil
  then show ?case by (simp add: grows_refl)
next
  case (Cons s rest)
  from Cons.prems obtain ws st1 xs
    where first: "convertLibShape E t s st = Inr (ws, st1)"
      and others: "convertLibShapes E t rest st1 = Inr (xs, st')"
    by (auto split: sum.splits)
  from convertLibShape_grows [OF first] Cons.IH [OF others]
  show ?case by (rule grows_trans)
qed

lemma convertLib_grows: "convertLib E args st = Inr (v, st') \<Longrightarrow> grows st st'"
  by (auto simp: convertLib_def Let_def split: option.splits sum.splits
           dest: convertLibShapes_grows)

lemma convertCopperArea_grows: "convertCopperArea E args st = Inr (v, st') \<Longrightarrow> grows st st'"
  by (auto simp: convertCopperArea_def Let_def split: prod.splits option.splits sum.splits if_splits
           dest!: getNetId_grows getLayerName_grows intro: grows_trans)

lemma convertSolidRegion_grows: "convertSolidRegion E args st = Inr (v, st') \<Longrightarrow> grows st st'"
  by (auto simp: convertSolidRegion_def Let_def split: prod.splits option.splits sum.splits if_splits
           dest!: getNetId_grows getLayerName_grows intro: grows_trans)

lemma convertPadToVia_grows: "convertPadToVia E args st p = Inr (v, st') \<Longrightarrow> grows st st'"
  by (auto simp: convertPadToVia_def Let_def split: prod.splits option.splits sum.splits if_splits
           dest!: getNetId_grows convertPad_grows)

lemma single_grows: "single r = Inr (v, st') \<Longrightarrow> \<exists>w. r = Inr (w, st')"
  by (auto simp: single_def split: sum.splits)

lemma convertShape_grows: "convertShape E s st = Inr (r, st') \<Longrightarrow> grows st st'"
  by (auto simp: convertShape_def Let_def grows_refl split: sum.splits if_splits
           dest!: single_grows
           dest: convertVia_grows convertTrack_grows convertText_grows convertArc_grows
                 convertCopperArea_grows convertSolidRegion_grows convertCircle_grows
                 convertLib_grows convertPadToVia_grows)

lemma convertShapes_grows: "convertShapes E shapes st = Inr (rs, st') \<Longrightarrow> grows st st'"
proof (induction shapes arbitrary: st rs)
  case Nil
  then show ?case by (simp add: grows_refl)
next
  case (Cons s rest)
  from Cons.prems obtain r st1 xs
    where first: "convertShape E s st = Inr (r, st1)"
      and others: "convertShapes E rest st1 = Inr (xs, st')"
    by (auto split: sum.splits)
  from convertShape_grows [OF first] Cons.IH [OF others]
  show ?case by (rule grows_trans)
qed

lemma indexOf_bounds: "indexOf xs s < int (length xs) \<and> - 1 \<le> indexOf xs s"
  by (induction xs) (auto simp: Let_def)

lemma indexOf_head_differs: "x \<noteq> s \<Longrightarrow> indexOf (x # xs) s \<noteq> 0"
  using indexOf_bounds [of xs s] by (auto simp: Let_def)

text \<open>The sample environment on the strings used below.\<close>

lemmas sampleParsers =
  sampleEnv_def decimalParseFloat_def decimalParseInt_def signOf_def isSpace_def isDigit_def
  digitsValue_def

lemma parseFloat_sample:
  "parseFloat sampleEnv ''270'' = Fin 270" "parseFloat sampleEnv ''abc'' = NaN"
  by (simp_all add: sampleParsers)

lemma parseInt_sample:
  "parseInt sampleEnv ''21'' = Some 21" "parseInt sampleEnv ''150'' = Some 150"
  "parseInt sampleEnv ''9'' = Some 9"
  by (simp_all add: sampleParsers)

lemma layers_sample:
  "map_of layers ''21'' = None" "map_of layers ''150'' = None" "map_of layers ''9'' = None"
  by (simp_all add: layers_def)

lemma forBy2_steps:
  "forBy2 i (int i + 2 * int m) body = map (\<lambda>k. body (i + 2 * k)) [0..<m]"
proof (induction m arbitrary: i)
  case 0
  then show ?case by (simp add: forBy2.simps)
next
  case (Suc m)
  have "forBy2 i (int i + 2 * int (Suc m)) body
          = body i # forBy2 (i + 2) (int (i + 2) + 2 * int m) body"
    by (subst forBy2.simps) (simp add: algebra_simps)
  also have "\<dots> = body i # map (\<lambda>k. body (i + 2 + 2 * k)) [0..<m]"
    by (simp only: Suc.IH)
  also have "\<dots> = map (\<lambda>k. body (i + 2 * k)) [0..<Suc m]"
    by (simp add: upt_conv_Cons map_Suc_upt [symmetric] del: upt_Suc)
  finally show ?case .
qed

lemma forBy2_from_0: "forBy2 0 (2 * int m) body = map (\<lambda>k. body (2 * k)) [0..<m]"
  using forBy2_steps [of 0 m body] by simp

lemma child_Arr: "child (Arr vs) i = (if i < length vs then vs ! i else Undefined)"
  by (simp add: child_def)

lemma net_slot_of_ten:
  assumes "\<not> isNetField a0" "\<not> isNetField a1" "\<not> isNetField a2" "\<not> isNetField a3"
    "\<not> isNetField a5" "\<not> isNetField a6" "\<not> isNetField a7" "\<not> isNetField a9"
    and "i \<noteq> 4"
  shows "isNetField (child (Arr [a0, a1, a2, a3, a4, a5, a6, a7, a8, a9]) i)
           = (i = 8 \<and> isNetField a8)"
proof (cases "i < 10")
  case False
  then show ?thesis by (simp add: child_Arr)
next
  case True
  then have "i = 0 \<or> i = 1 \<or> i = 2 \<or> i = 3 \<or> i = 4 \<or> i = 5 \<or> i = 6 \<or> i = 7 \<or> i = 8 \<or> i = 9"
    by arith
  then show ?thesis using assms by (auto simp: child_Arr)
qed

lemma getDrill_not_net: "\<not> isNetField (getDrill r l)"
  by (simp add: getDrill_def)

lemma convertPad_node:
  assumes run: "convertPad E args st transform = Inr (node, st')" and node: "node \<noteq> Null"
  shows "\<exists>a1 a2 a3 a4 a5 a6 a7 a9.
           node = Arr [Str ''pad'', a1, a2, a3, a4, Arr (Str ''size'' # a5),
                       Arr (Str ''layers'' # a6), a7,
                       if 0 < fst (getNetId st (arg args 6))
                       then Arr [Str ''net'', ofInt (fst (getNetId st (arg args 6))),
                                 strOf (arg args 6)]
                       else Null,
                       a9]
           \<and> \<not> isNetField a1 \<and> \<not> isNetField a2 \<and> \<not> isNetField a3
           \<and> \<not> isNetField a7 \<and> \<not> isNetField a9"
proof -
  from run obtain pts where pts: "arg args 9 = Some pts"
    by (cases "arg args 9") (simp_all add: convertPad_def Let_def)
  have notEarly: "\<not> (isCustomShape E (arg args 0) pts \<and> pts = [])"
    using run node pts by (auto simp: convertPad_def Let_def)
  obtain netId st1 where net: "getNetId st (arg args 6) = (netId, st1)"
    by (cases "getNetId st (arg args 6)")
  from run pts notEarly net obtain names
    where names: "map_of padLayers (toStr (arg args 5)) = Some names"
    by (cases "map_of padLayers (toStr (arg args 5))")
       (simp_all add: convertPad_def Let_def split: prod.splits)
  have a1: "\<not> isNetField (case parseInt E (toStr (arg args 7)) of
                             None \<Rightarrow> strOf (arg args 7) | Some n \<Rightarrow> ofInt n)"
    by (cases "arg args 7") (simp_all add: ofInt_def split: option.splits)
  have a3: "\<not> isNetField (case map_of padShapes (toStr (actualShape E (arg args 0) pts)) of
                             None \<Rightarrow> if inherited (toStr (actualShape E (arg args 0) pts))
                                     then Inherited (toStr (actualShape E (arg args 0) pts))
                                     else Undefined
                           | Some sh \<Rightarrow> Str sh)"
    by (simp split: option.splits)
  from run pts notEarly net names a1 a3 show ?thesis
    by (auto simp: convertPad_def Let_def getDrill_def split: prod.splits)
qed

lemma replaceFirst_nonempty: "s \<noteq> [] \<Longrightarrow> rep \<noteq> [] \<Longrightarrow> replaceFirst pat rep s \<noteq> []"
  by (cases s) auto

lemma textLayer_name_nonempty:
  assumes "textLayer E l st f n = Inr (Str name, st')"
  shows "name \<noteq> []"
proof -
  from assms obtain found where found: "getLayerName E l st = Inr (found, st')"
    by (auto simp: textLayer_def split: sum.splits if_splits jsval.splits)
  show ?thesis
  proof (cases "truthyVal found \<and> f \<and> n")
    case True
    with assms found obtain base where base: "found = Str base" "base \<noteq> []"
      by (cases found) (auto simp: textLayer_def)
    with assms found True have "name = replaceFirst ''.SilkS'' ''.Fab'' base"
      by (simp add: textLayer_def)
    with base show ?thesis by (simp add: replaceFirst_nonempty)
  next
    case False
    with assms found have "found = Str name" by (auto simp: textLayer_def)
    with found show ?thesis by (auto dest: getLayerName_name_nonempty)
  qed
qed

lemma prefix_nth_eq: "prefix xs ys \<Longrightarrow> i < length xs \<Longrightarrow> ys ! i = xs ! i"
  by (auto simp: prefix_def nth_append)

text \<open>An unknown layer id makes the resolver throw, whatever the state.\<close>

lemma getLayerName_unknown:
  "unknownLayer E (toStr l) \<Longrightarrow> getLayerName E l st = Inl (MissingLayerId (toStr l))"
  by (auto simp: getLayerName_def unknownLayer_def split: option.splits)

lemma convertTrack_unknown:
  assumes "unknownLayer E (toStr (arg args 1))"
  shows "\<exists>e. convertTrack E args st objName p = Inl e"
    and "arg args 3 \<noteq> None
         \<Longrightarrow> convertTrack E args st objName p = Inl (MissingLayerId (toStr (arg args 1)))"
  using assms
  by (auto simp: convertTrack_def Let_def getLayerName_unknown split: prod.splits option.splits)

lemma convertText_unknown:
  "unknownLayer E (toStr (arg args 6))
   \<Longrightarrow> convertText E args st objName p = Inl (MissingLayerId (toStr (arg args 6)))"
  by (simp add: convertText_def textLayer_def Let_def getLayerName_unknown)

lemma convertArc_unknown:
  "unknownLayer E (toStr (arg args 1))
   \<Longrightarrow> convertArc E args st objName p = Inl (MissingLayerId (toStr (arg args 1)))"
  by (simp add: convertArc_def Let_def getLayerName_unknown)

lemma convertCircle_unknown:
  "unknownLayer E (toStr (arg args 4))
   \<Longrightarrow> convertCircle E args st kind p = Inl (MissingLayerId (toStr (arg args 4)))"
  by (simp add: convertCircle_def Let_def getLayerName_unknown)

lemma convertPolygon_unknown:
  "unknownLayer E (toStr (arg args 0)) \<Longrightarrow> arg args 3 = Some ''solid''
   \<Longrightarrow> convertPolygon E args st p = Inl (MissingLayerId (toStr (arg args 0)))"
  by (simp add: convertPolygon_def Let_def getLayerName_unknown)

lemma convertCopperArea_unknown:
  "unknownLayer E (toStr (arg args 1))
   \<Longrightarrow> convertCopperArea E args st = Inl (MissingLayerId (toStr (arg args 1)))"
  by (simp add: convertCopperArea_def Let_def getLayerName_unknown split: prod.splits)

lemma convertSolidRegion_unknown:
  "unknownLayer E (toStr (arg args 0))
   \<Longrightarrow> convertSolidRegion E args st = Inl (MissingLayerId (toStr (arg args 0)))"
  by (simp add: convertSolidRegion_def Let_def getLayerName_unknown)

text \<open>
  A record of the board, and a record inside a footprint, whose layer id is
  unknown: its conversion throws, whatever the state.
\<close>

lemma convertShape_unknown:
  assumes parts: "split ''~'' s = type # args"
    and layer: "boardLayerId type args = Some l"
    and unknown: "unknownLayer E (toStr l)"
  shows "(\<exists>e. convertShape E s st = Inl e)
         \<and> (type \<noteq> ''TRACK'' \<or> arg args 3 \<noteq> None
              \<longrightarrow> convertShape E s st = Inl (MissingLayerId (toStr l)))"
proof -
  from layer consider
      (track) "type = ''TRACK''" "l = arg args 1"
    | (arc) "type = ''ARC''" "l = arg args 1"
    | (area) "type = ''COPPERAREA''" "l = arg args 1"
    | (label) "type = ''TEXT''" "l = arg args 6"
    | (circle) "type = ''CIRCLE''" "l = arg args 4"
    | (region) "type = ''SOLIDREGION''" "l = arg args 0"
    unfolding boardLayerId_def by (auto split: if_splits)
  then show ?thesis
  proof cases
    case track
    with parts unknown convertTrack_unknown [of E args st "''segment''" None]
    show ?thesis by (auto simp: convertShape_def)
  next
    case arc
    with parts unknown show ?thesis
      by (simp add: convertShape_def single_def convertArc_unknown)
  next
    case area
    with parts unknown show ?thesis
      by (simp add: convertShape_def single_def convertCopperArea_unknown)
  next
    case label
    with parts unknown show ?thesis
      by (simp add: convertShape_def single_def convertText_unknown)
  next
    case circle
    with parts unknown show ?thesis
      by (simp add: convertShape_def single_def convertCircle_unknown)
  next
    case region
    with parts unknown show ?thesis
      by (simp add: convertShape_def single_def convertSolidRegion_unknown)
  qed
qed

lemma convertLibShape_unknown:
  assumes parts: "split ''~'' p = type # args"
    and layer: "footprintLayerId type args = Some l"
    and unknown: "unknownLayer E (toStr l)"
  shows "(\<exists>e. convertLibShape E t p st = Inl e)
         \<and> (type \<noteq> ''TRACK'' \<or> arg args 3 \<noteq> None
              \<longrightarrow> convertLibShape E t p st = Inl (MissingLayerId (toStr l)))"
proof -
  from layer consider
      (track) "type = ''TRACK''" "l = arg args 1"
    | (arc) "type = ''ARC''" "l = arg args 1"
    | (label) "type = ''TEXT''" "l = arg args 6"
    | (circle) "type = ''CIRCLE''" "l = arg args 4"
    | (region) "type = ''SOLIDREGION''" "arg args 3 = Some ''solid''" "l = arg args 0"
    unfolding footprintLayerId_def by (auto split: if_splits)
  then show ?thesis
  proof cases
    case track
    with parts unknown convertTrack_unknown [of E args st "''fp_line''" "Some t"]
    show ?thesis by (auto simp: convertLibShape_def)
  next
    case arc
    with parts unknown show ?thesis
      by (simp add: convertLibShape_def convertArc_unknown)
  next
    case label
    with parts unknown show ?thesis
      by (simp add: convertLibShape_def convertText_unknown)
  next
    case circle
    with parts unknown show ?thesis
      by (simp add: convertLibShape_def convertCircle_unknown)
  next
    case region
    with parts unknown show ?thesis
      by (simp add: convertLibShape_def convertPolygon_unknown)
  qed
qed

text \<open>
  A thrown error is passed on: by the loop of \<^verbatim>\<open>convertLib\<close>, by \<^verbatim>\<open>convertLib\<close>
  itself, by \<^verbatim>\<open>convertShape\<close> for a footprint, by the run over the shapes of the
  board and by \<^verbatim>\<open>convertBoardToArray\<close>.
\<close>

lemma convertLibShapes_throws:
  assumes "p \<in> set shapes" and "\<And>st. \<exists>e. convertLibShape E t p st = Inl e"
  shows "\<exists>e. convertLibShapes E t shapes st = Inl e"
  using assms(1)
proof (induction shapes arbitrary: st)
  case Nil
  then show ?case by simp
next
  case (Cons q rest)
  show ?case
  proof (cases "convertLibShape E t q st")
    case (Inl e)
    then show ?thesis by simp
  next
    case (Inr r)
    obtain vs st1 where r: "r = (vs, st1)" by (cases r)
    show ?thesis
    proof (cases "p = q")
      case True
      with assms(2) [of st] Inr show ?thesis by simp
    next
      case False
      with Cons.prems have "p \<in> set rest" by simp
      from Cons.IH [OF this, of st1] Inr r show ?thesis by (auto split: sum.splits)
    qed
  qed
qed

lemma convertLib_throws:
  assumes "p \<in> set (tl (split ''#@$'' (join ''~'' args)))"
    and "\<And>t st. \<exists>e. convertLibShape E t p st = Inl e"
  shows "\<exists>e. convertLib E args st = Inl e"
proof (cases "arg args 2")
  case None
  then show ?thesis by (simp add: convertLib_def Let_def)
next
  case (Some attrs)
  let ?c = "kiCoords E (ofField (arg args 0)) (ofField (arg args 1)) None"
  let ?t = "\<lparr>tx = fst ?c, ty = snd ?c, tangle = kiAngle E (arg args 3)\<rparr>"
  from convertLibShapes_throws [OF assms(1), of E ?t st] assms(2)
  obtain e where "convertLibShapes E ?t (tl (split ''#@$'' (join ''~'' args))) st = Inl e"
    by blast
  with Some show ?thesis by (simp add: convertLib_def Let_def)
qed

lemma convertShape_lib_throws:
  assumes "split ''~'' s = ''LIB'' # args"
    and "p \<in> set (tl (split ''#@$'' (join ''~'' args)))"
    and "\<And>t st. \<exists>e. convertLibShape E t p st = Inl e"
  shows "\<exists>e. convertShape E s st = Inl e"
proof -
  from convertLib_throws [OF assms(2), of E st] assms(3)
  obtain e where "convertLib E args st = Inl e" by blast
  with assms(1) show ?thesis by (simp add: convertShape_def single_def)
qed

lemma convertShapes_throws:
  assumes "s \<in> set shapes" and "\<And>st. \<exists>e. convertShape E s st = Inl e"
  shows "\<exists>e. convertShapes E shapes st = Inl e"
  using assms(1)
proof (induction shapes arbitrary: st)
  case Nil
  then show ?case by simp
next
  case (Cons q rest)
  show ?case
  proof (cases "convertShape E q st")
    case (Inl e)
    then show ?thesis by simp
  next
    case (Inr r)
    obtain v st1 where r: "r = (v, st1)" by (cases r)
    show ?thesis
    proof (cases "s = q")
      case True
      with assms(2) [of st] Inr show ?thesis by simp
    next
      case False
      with Cons.prems have "s \<in> set rest" by simp
      from Cons.IH [OF this, of st1] Inr r show ?thesis by (auto split: sum.splits)
    qed
  qed
qed

lemma convertShapes_first_throw:
  assumes "convertShapes E before st = Inr (rs, st1)" and "convertShape E s st1 = Inl e"
  shows "convertShapes E (before @ s # after) st = Inl e"
  using assms
proof (induction before arbitrary: st rs)
  case Nil
  then show ?case by simp
next
  case (Cons q rest)
  from Cons.prems(1) obtain r st0 xs
    where first: "convertShape E q st = Inr (r, st0)"
      and others: "convertShapes E rest st0 = Inr (xs, st1)"
    by (auto split: sum.splits)
  from Cons.IH [OF others Cons.prems(2)] first show ?case by simp
qed

lemma convertBoardToArray_throws:
  assumes "s \<in> set (shape input)" and "\<And>st. \<exists>e. convertShape E s st = Inl e"
  shows "\<exists>e. convertBoardToArray E input = Inl e"
proof -
  from convertShapes_throws [OF assms(1), of E "initialState input"] assms(2)
  obtain e where "convertShapes E (shape input) (initialState input) = Inl e" by blast
  then show ?thesis by (simp add: convertBoardToArray_def)
qed

lemma convertBoardToArray_first_throw:
  assumes "shape input = before @ s # after"
    and "convertShapes E before (initialState input) = Inr (rs, st1)"
    and "convertShape E s st1 = Inl e"
  shows "convertBoardToArray E input = Inl e"
  using convertShapes_first_throw [OF assms(2,3), of after] assms(1)
  by (simp add: convertBoardToArray_def)

section \<open>Net resolution\<close>

text \<open>
  Claim C1, as amended. \<^verbatim>\<open>getNetId\<close> yields -1 both when the name is the explicitly
  empty string and when it is absent: the guard \<^verbatim>\<open>!netName\<close> holds for both, so the
  two cases are merged. The table that \<^verbatim>\<open>convertBoardToArray\<close> starts with holds the
  empty string at index 0, and with the empty string at index 0 no name resolves
  to 0.
\<close>

theorem getNetId_empty_or_absent:
  "getNetId st (Some '''') = (- 1, st) \<and> getNetId st None = (- 1, st)
   \<and> nets (initialState input) ! 0 = ''''
   \<and> fst (getNetId (st\<lparr>nets := '''' # ns\<rparr>) netName) \<noteq> 0"
proof -
  have "fst (getNetId (st\<lparr>nets := '''' # ns\<rparr>) netName) \<noteq> 0"
  proof (cases "truthy netName")
    case False
    then show ?thesis by (simp add: getNetId_def)
  next
    case True
    then have "toStr netName \<noteq> ''''" by (cases netName) auto
    then have "indexOf ('''' # ns) (toStr netName) \<noteq> 0"
      by (intro indexOf_head_differs) auto
    then show ?thesis using True by (auto simp: getNetId_def Let_def)
  qed
  then show ?thesis by (simp add: getNetId_def initialState_def)
qed

text \<open>
  On the pre-seeded table of a board with the net \<^verbatim>\<open>GND\<close>, the empty name does not
  resolve to 0; it resolves to what the absent name resolves to.
\<close>

theorem getNetId_empty_name_counterexample:
  "fst (getNetId (initialState \<lparr>routerRule = Some [''GND''], shape = []\<rparr>) (Some '''')) \<noteq> 0
   \<and> fst (getNetId (initialState \<lparr>routerRule = Some [''GND''], shape = []\<rparr>) (Some ''''))
       = fst (getNetId (initialState \<lparr>routerRule = Some [''GND''], shape = []\<rparr>) None)"
  by (simp add: getNetId_def)

section \<open>Text position\<close>

text \<open>
  Claim C2, as amended. For every text record whose layer resolves to a name, the
  offset formula (a function of the declared rotation angle) is applied to the
  position whatever the kind of text is: in-footprint text (\<^verbatim>\<open>fp_text\<close>) and
  board-level text (\<^verbatim>\<open>gr_text\<close>) are both emitted at the adjusted position
  \<open>x + xOffset\<close>, \<open>y + yOffset\<close>, where for a parsed angle \<open>a\<close> the offsets are
  \<open>0.5 * -1.28 - 1.5 * 1.28 * sin (\<pi> a / 180)\<close> and
  \<open>1.5 * -1.28 + 2.54 * sin (\<pi> a / 180)\<close>.
\<close>

theorem convertText_position_offset:
  assumes layer: "textLayer E (arg args 6) st (objName = ''fp_text'') (arg args 0 = Some ''N'')
                    = Inr (Str name, st')"
  shows "(\<exists>node. convertText E args st objName parentCoords = Inr (node, st')
            \<and> child node 0 = Str objName
            \<and> child node 3 =
                kiAt E (Number (jadd (parseFloat E (toStr (arg args 1)))
                                     (xOffset (parseFloat E (toStr (arg args 4))))))
                       (Number (jadd (parseFloat E (toStr (arg args 2)))
                                     (yOffset (parseFloat E (toStr (arg args 4))))))
                       (ofField (arg args 4)) parentCoords)
         \<and> xOffset (Fin a) = Fin (0.5 * - 1.28 - 1.5 * 1.28 * sin (pi * a / 180))
         \<and> yOffset (Fin a) = Fin (1.5 * - 1.28 + 2.54 * sin (pi * a / 180))"
proof -
  from layer have "name \<noteq> []" by (rule textLayer_name_nonempty)
  with layer show ?thesis
    by (simp add: convertText_def Let_def child_Arr xOffset_def yOffset_def split: prod.splits)
qed

text \<open>
  The same label, once inside a footprint placed at the origin and once on the
  board: both are moved by the offsets of the angle 0, which are -0.64 and -1.92
  source units, that is -0.16256 mm and -0.48768 mm.
\<close>

theorem convertText_position_offset_witness:
  "(\<exists>node st'. convertText sampleEnv
        [''L'', ''4000'', ''3000'', ''0.8'', ''0'', '''', ''3'', '''', ''8'', ''Hello'', '''', '''',
         ''gge1'', '''', ''0'']
        \<lparr>nets = [''''], innerLayers = 0\<rparr> ''fp_text''
        (Some \<lparr>tx = Fin 0, ty = Fin 0, tangle = Some (Fin 0)\<rparr>) = Inr (node, st')
      \<and> child node 3 = Arr [Str ''at'', Num (Fin (- 0.16256)), Num (Fin (- 0.48768)), Num (Fin 0)])
   \<and> (\<exists>node st'. convertText sampleEnv
        [''L'', ''4000'', ''3000'', ''0.8'', ''0'', '''', ''3'', '''', ''8'', ''Hello'', '''', '''',
         ''gge1'', '''', ''0'']
        \<lparr>nets = [''''], innerLayers = 0\<rparr> ''gr_text'' None = Inr (node, st')
      \<and> child node 3 = Arr [Str ''at'', Num (Fin (- 0.16256)), Num (Fin (- 0.48768)), Num (Fin 0)])"
proof -
  let ?args = "[''L'', ''4000'', ''3000'', ''0.8'', ''0'', '''', ''3'', '''', ''8'', ''Hello'', '''', '''',
         ''gge1'', '''', ''0'']"
  let ?st = "\<lparr>nets = [''''], innerLayers = 0\<rparr>"
  have footprint: "textLayer sampleEnv (arg ?args 6) ?st (''fp_text'' = ''fp_text'')
                     (arg ?args 0 = Some ''N'') = Inr (Str ''F.SilkS'', ?st)"
    by (simp add: textLayer_def getLayerName_def layers_def arg_def)
  have board: "textLayer sampleEnv (arg ?args 6) ?st (''gr_text'' = ''fp_text'')
                 (arg ?args 0 = Some ''N'') = Inr (Str ''F.SilkS'', ?st)"
    by (simp add: textLayer_def getLayerName_def layers_def arg_def)
  from convertText_position_offset
         [OF footprint, of "Some \<lparr>tx = Fin 0, ty = Fin 0, tangle = Some (Fin 0)\<rparr>" 0]
  have first: "\<exists>node st'. convertText sampleEnv ?args ?st ''fp_text''
                 (Some \<lparr>tx = Fin 0, ty = Fin 0, tangle = Some (Fin 0)\<rparr>) = Inr (node, st')
      \<and> child node 3 = Arr [Str ''at'', Num (Fin (- 0.16256)), Num (Fin (- 0.48768)), Num (Fin 0)]"
    by (auto simp: arg_def xOffset_def yOffset_def sampleParsers legacyKiAt_def
          legacyKiCoords_def)
  from convertText_position_offset [OF board, of None 0]
  have second: "\<exists>node st'. convertText sampleEnv ?args ?st ''gr_text'' None = Inr (node, st')
      \<and> child node 3 = Arr [Str ''at'', Num (Fin (- 0.16256)), Num (Fin (- 0.48768)), Num (Fin 0)]"
    by (auto simp: arg_def xOffset_def yOffset_def sampleParsers legacyKiAt_def
          legacyKiCoords_def)
  from first second show ?thesis by blast
qed

text \<open>
  A board-level label at the source origin with the angle 0: the emitted position
  is not the unadjusted position, which is (0, 0).
\<close>

theorem convertText_gr_text_offset_counterexample:
  "convertText sampleEnv
     [''L'', ''4000'', ''3000'', ''0.8'', ''0'', '''', ''3'', '''', ''8'', ''Hello'', '''', '''',
      ''gge1'', '''', ''0'']
     \<lparr>nets = [''''], innerLayers = 0\<rparr> ''gr_text'' None
   = Inr (Arr [Str ''gr_text'', Null, Str ''Hello'',
               Arr [Str ''at'', Num (Fin (- 0.16256)), Num (Fin (- 0.48768)), Num (Fin 0)],
               Arr [Str ''layer'', Str ''F.SilkS''], Null,
               Arr [Str ''effects'',
                    Arr [Str ''font'',
                         Arr [Str ''size'', Num (Fin 2.032), Num (Fin 1.8288)],
                         Arr [Str ''thickness'', Num (Fin 0.18288)]],
                    Arr [Str ''justify'', Str ''left'', Null]]],
          \<lparr>nets = [''''], innerLayers = 0\<rparr>)
   \<and> kiAt sampleEnv (Text ''4000'') (Text ''3000'') (Text ''0'') None
       = Arr [Str ''at'', Num (Fin 0), Num (Fin 0), Num (Fin 0)]"
  by (simp add: convertText_def textLayer_def getLayerName_def layers_def Let_def arg_def
        fontMultiplier_def fontTable_def inherited_def objectPrototypeNames_def xOffset_def
        yOffset_def sampleParsers legacyKiAt_def legacyKiCoords_def)

section \<open>The input's net list\<close>

text \<open>
  Claim C3, as amended. \<^verbatim>\<open>convertBoardToArray\<close> does not leave an input with a
  router rule unchanged: the net table of the run is the input's own net-name
  list, so after a run that returns, that list is the empty name, followed by the
  names it held, followed by the names interned during the run. The shape list is
  not changed, and an input without a router rule is left as it was. After the
  empty name has been put in front, the net table only ever grows by appending at
  the end, with existing indices stable: this holds for every call of \<^verbatim>\<open>getNetId\<close>
  and for every run of \<^verbatim>\<open>convertShape\<close> calls that returns.
\<close>

theorem convertBoardToArray_extends_input_nets:
  "(convertBoardToArray E input = Inr (tree, input') \<longrightarrow>
      shape input' = shape input
      \<and> (routerRule input = None \<longrightarrow> input' = input)
      \<and> (\<forall>ns. routerRule input = Some ns \<longrightarrow>
            (\<exists>new. routerRule input' = Some ('''' # ns @ new)) \<and> input' \<noteq> input))
   \<and> prefix (nets st) (nets (snd (getNetId st netName)))
   \<and> (\<forall>i<length (nets st). nets (snd (getNetId st netName)) ! i = nets st ! i)
   \<and> (convertShapes E shapes st = Inr (rs, st'') \<longrightarrow>
        prefix (nets st) (nets st'') \<and> (\<forall>i<length (nets st). nets st'' ! i = nets st ! i))"
proof -
  have board: "shape input' = shape input
      \<and> (routerRule input = None \<longrightarrow> input' = input)
      \<and> (\<forall>ns. routerRule input = Some ns \<longrightarrow>
            (\<exists>new. routerRule input' = Some ('''' # ns @ new)) \<and> input' \<noteq> input)"
    if run: "convertBoardToArray E input = Inr (tree, input')"
  proof -
    from run obtain results final
      where shapes: "convertShapes E (shape input) (initialState input) = Inr (results, final)"
        and after: "input' = input\<lparr>routerRule := map_option (\<lambda>_. nets final) (routerRule input)\<rparr>"
      by (auto simp: convertBoardToArray_def Let_def split: sum.splits)
    from convertShapes_grows [OF shapes]
    have "prefix (nets (initialState input)) (nets final)"
      by (simp add: grows_def)
    then obtain new where new: "nets final = nets (initialState input) @ new"
      by (auto elim: prefixE)
    have unchanged: "input' = input" if "routerRule input = None"
      using that after by simp
    have changed: "(\<exists>new. routerRule input' = Some ('''' # ns @ new)) \<and> input' \<noteq> input"
      if ns: "routerRule input = Some ns" for ns
    proof -
      from after ns new have eq: "routerRule input' = Some ('''' # ns @ new)"
        by (simp add: initialState_def)
      then have "routerRule input' \<noteq> routerRule input"
        using ns by auto
      then have "input' \<noteq> input" by auto
      with eq show ?thesis by blast
    qed
    from after unchanged changed show ?thesis by simp
  qed
  have call: "prefix (nets st) (nets (snd (getNetId st netName)))"
    using getNetId_grows [of st netName "fst (getNetId st netName)" "snd (getNetId st netName)"]
    by (simp add: grows_def)
  have run: "prefix (nets st) (nets st'')" if "convertShapes E shapes st = Inr (rs, st'')"
    using convertShapes_grows [OF that] by (simp add: grows_def)
  from board call run show ?thesis
    by (auto simp: prefix_nth_eq)
qed

text \<open>
  A board with the net \<^verbatim>\<open>GND\<close> and a via on the net \<^verbatim>\<open>VCC\<close>: after the run the input's
  net list starts with the empty name and \<^verbatim>\<open>GND\<close>, and the input differs from what
  it was.
\<close>

theorem convertBoardToArray_extends_input_nets_witness:
  "\<exists>tree input' new.
     convertBoardToArray sampleEnv
       \<lparr>routerRule = Some [''GND''], shape = [''VIA~4010~3000~2.4~VCC~0.6~gge1041'']\<rparr>
       = Inr (tree, input')
     \<and> routerRule input' = Some ('''' # [''GND''] @ new)
     \<and> input' \<noteq> \<lparr>routerRule = Some [''GND''], shape = [''VIA~4010~3000~2.4~VCC~0.6~gge1041'']\<rparr>"
proof -
  let ?input = "\<lparr>routerRule = Some [''GND''], shape = [''VIA~4010~3000~2.4~VCC~0.6~gge1041'']\<rparr>"
  obtain tree input' where run: "convertBoardToArray sampleEnv ?input = Inr (tree, input')"
    by (simp add: convertBoardToArray_def initialState_def convertShape_def convertVia_def
          single_def split_def arg_def getNetId_def Let_def)
  from convertBoardToArray_extends_input_nets [of sampleEnv ?input tree input'] run
  show ?thesis by auto
qed

text \<open>
  The same board: the input's net list has become the empty name, \<^verbatim>\<open>GND\<close> and \<^verbatim>\<open>VCC\<close>.
\<close>

theorem convertBoardToArray_input_counterexample:
  "inputAfter (convertBoardToArray sampleEnv
       \<lparr>routerRule = Some [''GND''], shape = [''VIA~4010~3000~2.4~VCC~0.6~gge1041'']\<rparr>)
     = Some \<lparr>routerRule = Some ['''', ''GND'', ''VCC''],
             shape = [''VIA~4010~3000~2.4~VCC~0.6~gge1041'']\<rparr>"
  by (simp add: convertBoardToArray_def initialState_def convertShape_def convertVia_def
        single_def split_def arg_def getNetId_def Let_def)

section \<open>Angles\<close>

text \<open>
  Claim C4. When the angle string parses to a number \<open>A\<close> with \<open>0 \<le> A < 360\<close>,
  \<^verbatim>\<open>kiAngle\<close> returns \<open>A\<close> when \<open>A \<le> 180\<close> and \<open>A - 360\<close> when \<open>A > 180\<close>, and the
  result lies in \<open>(-180, 180]\<close>. When the string does not parse as a number, it
  returns \<^verbatim>\<open>null\<close>, not zero.
\<close>

theorem kiAngle_normalizes:
  "(\<forall>A. parseFloat E (toStr value) = Fin A \<and> 0 \<le> A \<and> A < 360 \<longrightarrow>
        kiAngle E value = Some (Fin (if A \<le> 180 then A else A - 360))
        \<and> - 180 < (if A \<le> 180 then A else A - 360)
        \<and> (if A \<le> 180 then A else A - 360) \<le> 180)
   \<and> (isNaN (parseFloat E (toStr value)) \<longrightarrow>
        kiAngle E value = None \<and> kiAngle E value \<noteq> Some (Fin 0))"
  by (auto simp: kiAngle_def)

theorem kiAngle_normalizes_witness:
  "kiAngle sampleEnv (Some ''270'') = Some (Fin (- 90))
   \<and> kiAngle sampleEnv (Some ''abc'') = None"
proof -
  have "kiAngle sampleEnv (Some ''270'') = Some (Fin (- 90))"
    using kiAngle_normalizes [of sampleEnv "Some ''270''"] parseFloat_sample by simp
  moreover have "kiAngle sampleEnv (Some ''abc'') = None"
    using kiAngle_normalizes [of sampleEnv "Some ''abc''"] parseFloat_sample by simp
  ultimately show ?thesis by simp
qed

section \<open>Layers\<close>

text \<open>
  What \<^verbatim>\<open>getLayerName\<close> does with an id that is no key of the static table and no
  inherited name. When the id parses to an integer \<open>n\<close> in the band 21-50, the
  result is the inner copper layer \<^verbatim>\<open>In(n-20).Cu\<close>, and the running maximum of the
  inner layer index is raised to at least \<open>n - 20\<close>; when \<open>n\<close> is in the band 99-199,
  the result is \<^verbatim>\<open>null\<close> and nothing is thrown; in every other case the resolver
  throws. A call that returns never lowers the running maximum and leaves the net
  table alone, and the maximum after a whole run of \<^verbatim>\<open>convertShape\<close> calls is at
  least what it was before. The thrown error ends the conversion: a board that
  holds a record with an unknown layer id, on the board itself or inside a
  footprint, makes \<^verbatim>\<open>convertBoardToArray\<close> throw.
\<close>

lemma getLayerName_bands:
  "(map_of layers (toStr id') = None \<and> \<not> inherited (toStr id')
      \<and> parseInt E (toStr id') = Some n \<and> 21 \<le> n \<and> n \<le> 50 \<longrightarrow>
      getLayerName E id' st =
        Inr (Str (''In'' @ showInt (n - 20) @ ''.Cu''),
             st\<lparr>innerLayers := max (innerLayers st) (n - 20)\<rparr>))
   \<and> (map_of layers (toStr id') = None \<and> \<not> inherited (toStr id')
      \<and> parseInt E (toStr id') = Some n \<and> 99 \<le> n \<and> n < 200 \<longrightarrow>
      getLayerName E id' st = Inr (Null, st))
   \<and> (unknownLayer E (toStr id') \<longrightarrow>
      getLayerName E id' st = Inl (MissingLayerId (toStr id')))
   \<and> (getLayerName E id' st = Inr (r, st') \<longrightarrow>
        innerLayers st \<le> innerLayers st' \<and> nets st' = nets st)
   \<and> (convertShapes E shapes st = Inr (rs, st'') \<longrightarrow> innerLayers st \<le> innerLayers st'')
   \<and> (unknownLayer E (toStr id') \<and> s \<in> set (shape input) \<and> split ''~'' s = type # args
        \<and> boardLayerId type args = Some id' \<longrightarrow>
        (\<exists>e. convertBoardToArray E input = Inl e))
   \<and> (unknownLayer E (toStr id') \<and> s \<in> set (shape input) \<and> split ''~'' s = ''LIB'' # libArgs
        \<and> p \<in> set (tl (split ''#@$'' (join ''~'' libArgs))) \<and> split ''~'' p = type # args
        \<and> footprintLayerId type args = Some id' \<longrightarrow>
        (\<exists>e. convertBoardToArray E input = Inl e))
   \<and> (unknownLayer E (toStr id') \<and> shape input = before @ s # after
        \<and> convertShapes E before (initialState input) = Inr (rs, st'')
        \<and> split ''~'' s = type # args \<and> boardLayerId type args = Some id'
        \<and> (type \<noteq> ''TRACK'' \<or> arg args 3 \<noteq> None) \<longrightarrow>
        convertBoardToArray E input = Inl (MissingLayerId (toStr id')))"
proof -
  have run: "convertShapes E shapes st = Inr (rs, st'') \<longrightarrow> innerLayers st \<le> innerLayers st''"
    using convertShapes_grows [of E shapes st rs st''] by (simp add: grows_def)
  have call: "getLayerName E id' st = Inr (r, st') \<longrightarrow>
        innerLayers st \<le> innerLayers st' \<and> nets st' = nets st"
    by (auto simp: getLayerName_def Let_def split: option.splits if_splits)
  have bands: "(map_of layers (toStr id') = None \<and> \<not> inherited (toStr id')
      \<and> parseInt E (toStr id') = Some n \<and> 21 \<le> n \<and> n \<le> 50 \<longrightarrow>
      getLayerName E id' st =
        Inr (Str (''In'' @ showInt (n - 20) @ ''.Cu''),
             st\<lparr>innerLayers := max (innerLayers st) (n - 20)\<rparr>))
   \<and> (map_of layers (toStr id') = None \<and> \<not> inherited (toStr id')
      \<and> parseInt E (toStr id') = Some n \<and> 99 \<le> n \<and> n < 200 \<longrightarrow>
      getLayerName E id' st = Inr (Null, st))"
    by (auto simp: getLayerName_def Let_def)
  have throws: "unknownLayer E (toStr id') \<longrightarrow>
      getLayerName E id' st = Inl (MissingLayerId (toStr id'))"
    by (simp add: getLayerName_unknown)
  have board: "\<exists>e. convertBoardToArray E input = Inl e"
    if "unknownLayer E (toStr id')" "s \<in> set (shape input)" "split ''~'' s = type # args"
      "boardLayerId type args = Some id'"
  proof -
    have "\<exists>e. convertShape E s st0 = Inl e" for st0
      using convertShape_unknown [OF that(3,4,1), of st0] by blast
    with that(2) show ?thesis by (rule convertBoardToArray_throws)
  qed
  have footprint: "\<exists>e. convertBoardToArray E input = Inl e"
    if "unknownLayer E (toStr id')" "s \<in> set (shape input)" "split ''~'' s = ''LIB'' # libArgs"
      "p \<in> set (tl (split ''#@$'' (join ''~'' libArgs)))" "split ''~'' p = type # args"
      "footprintLayerId type args = Some id'"
  proof -
    have inner: "\<exists>e. convertLibShape E t p st0 = Inl e" for t st0
      using convertLibShape_unknown [OF that(5,6,1), of t st0] by blast
    have "\<exists>e. convertShape E s st0 = Inl e" for st0
      using convertShape_lib_throws [OF that(3,4), of E st0] inner by blast
    with that(2) show ?thesis by (rule convertBoardToArray_throws)
  qed
  have first: "convertBoardToArray E input = Inl (MissingLayerId (toStr id'))"
    if "unknownLayer E (toStr id')" "shape input = before @ s # after"
      "convertShapes E before (initialState input) = Inr (rs, st'')"
      "split ''~'' s = type # args" "boardLayerId type args = Some id'"
      "type \<noteq> ''TRACK'' \<or> arg args 3 \<noteq> None"
  proof -
    from convertShape_unknown [OF that(4,5,1), of st''] that(6)
    have "convertShape E s st'' = Inl (MissingLayerId (toStr id'))" by blast
    with that(2,3) show ?thesis by (rule convertBoardToArray_first_throw)
  qed
  from bands throws call run board footprint first show ?thesis by blast
qed

text \<open>
  Claim C6 fails on the code for a layer id that is the name of a property of
  \<^verbatim>\<open>Object.prototype\<close>. Such an id is outside the static table and outside both
  bands, yet \<^verbatim>\<open>id in layers\<close> holds for it: \<^verbatim>\<open>getLayerName\<close> returns the inherited
  value and does not throw. A circle on the layer \<^verbatim>\<open>constructor\<close> is converted with
  that value as its layer, and the conversion of the board returns.
\<close>

theorem getLayerName_inherited_id:
  "getLayerName E (Some ''constructor'') st = Inr (Inherited ''constructor'', st)
   \<and> map_of layers ''constructor'' = None
   \<and> convertShape sampleEnv ''CIRCLE~4000~3000~5~1~constructor~gge1''
        \<lparr>nets = [''''], innerLayers = 0\<rparr>
      = Inr (Some [Arr [Str ''gr_circle'',
                        Arr [Str ''center'', Num (Fin 0), Num (Fin 0)],
                        Arr [Str ''end'', Num (Fin 1.27), Num (Fin 0)],
                        Arr [Str ''layer'', Inherited ''constructor''],
                        Arr [Str ''width'', Num (Fin 0.254)]]],
             \<lparr>nets = [''''], innerLayers = 0\<rparr>)
   \<and> inputAfter (convertBoardToArray sampleEnv
        \<lparr>routerRule = None, shape = [''CIRCLE~4000~3000~5~1~constructor~gge1'']\<rparr>)
      = Some \<lparr>routerRule = None, shape = [''CIRCLE~4000~3000~5~1~constructor~gge1'']\<rparr>"
proof -
  have resolver: "getLayerName E (Some ''constructor'') st = Inr (Inherited ''constructor'', st)"
    by (simp add: getLayerName_def layers_def inherited_def objectPrototypeNames_def)
  have circle: "convertShape sampleEnv ''CIRCLE~4000~3000~5~1~constructor~gge1''
        \<lparr>nets = [''''], innerLayers = 0\<rparr>
      = Inr (Some [Arr [Str ''gr_circle'',
                        Arr [Str ''center'', Num (Fin 0), Num (Fin 0)],
                        Arr [Str ''end'', Num (Fin 1.27), Num (Fin 0)],
                        Arr [Str ''layer'', Inherited ''constructor''],
                        Arr [Str ''width'', Num (Fin 0.254)]]],
             \<lparr>nets = [''''], innerLayers = 0\<rparr>)"
    by (simp add: convertShape_def single_def convertCircle_def split_def arg_def Let_def
          getLayerName_def layers_def inherited_def objectPrototypeNames_def sampleParsers
          legacyKiCoords_def)
  from resolver circle show ?thesis
    by (simp add: convertBoardToArray_def initialState_def layers_def)
qed

text \<open>
  The ids 21, 150 and 9 in the sample environment, and a board whose second shape
  is a circle on the layer 60: the conversion throws for the missing layer.
\<close>

lemma getLayerName_bands_sample:
  "getLayerName sampleEnv (Some ''21'') \<lparr>nets = [''''], innerLayers = 0\<rparr>
     = Inr (Str ''In1.Cu'', \<lparr>nets = [''''], innerLayers = 1\<rparr>)
   \<and> getLayerName sampleEnv (Some ''150'') \<lparr>nets = [''''], innerLayers = 0\<rparr>
     = Inr (Null, \<lparr>nets = [''''], innerLayers = 0\<rparr>)
   \<and> getLayerName sampleEnv (Some ''9'') \<lparr>nets = [''''], innerLayers = 0\<rparr>
     = Inl (MissingLayerId ''9'')
   \<and> convertBoardToArray sampleEnv
        \<lparr>routerRule = None,
         shape = [''VIA~4010~3000~2.4~GND~0.6~gge2'', ''CIRCLE~4000~3000~5~1~60~gge1'']\<rparr>
     = Inl (MissingLayerId ''60'')"
proof -
  let ?st = "\<lparr>nets = [''''], innerLayers = 0\<rparr>"
  let ?input = "\<lparr>routerRule = None,
         shape = [''VIA~4010~3000~2.4~GND~0.6~gge2'', ''CIRCLE~4000~3000~5~1~60~gge1'']\<rparr>"
  have inherited: "\<not> inherited ''21''" "\<not> inherited ''150''" "\<not> inherited ''9''"
    "\<not> inherited ''60''"
    by (simp_all add: inherited_def objectPrototypeNames_def)
  have a: "getLayerName sampleEnv (Some ''21'') ?st
             = Inr (Str ''In1.Cu'', \<lparr>nets = [''''], innerLayers = 1\<rparr>)"
    using getLayerName_bands [of "Some ''21''" sampleEnv 21 ?st] inherited
    by (simp add: parseInt_sample layers_sample showInt_def showNat.simps)
  have b: "getLayerName sampleEnv (Some ''150'') ?st = Inr (Null, ?st)"
    using getLayerName_bands [of "Some ''150''" sampleEnv 150 ?st] inherited
    by (simp add: parseInt_sample layers_sample)
  have c: "getLayerName sampleEnv (Some ''9'') ?st = Inl (MissingLayerId ''9'')"
    using getLayerName_bands [of "Some ''9''" sampleEnv 9 ?st] inherited
    by (simp add: parseInt_sample layers_sample unknownLayer_def)
  have unknown: "unknownLayer sampleEnv ''60''"
    using inherited by (simp add: unknownLayer_def layers_def sampleParsers)
  obtain r st1 where via: "convertShapes sampleEnv [''VIA~4010~3000~2.4~GND~0.6~gge2'']
                             (initialState ?input) = Inr (r, st1)"
    by (simp add: initialState_def convertShape_def convertVia_def single_def split_def
          arg_def getNetId_def Let_def)
  have circle: "split ''~'' ''CIRCLE~4000~3000~5~1~60~gge1''
                  = ''CIRCLE'' # [''4000'', ''3000'', ''5'', ''1'', ''60'', ''gge1'']"
    by (simp add: split_def)
  have d: "convertBoardToArray sampleEnv ?input = Inl (MissingLayerId ''60'')"
    using getLayerName_bands
            [where E = sampleEnv and id' = "Some ''60''" and input = ?input
               and before = "[''VIA~4010~3000~2.4~GND~0.6~gge2'']"
               and s = "''CIRCLE~4000~3000~5~1~60~gge1''" and after = "[]"
               and rs = r and st'' = st1 and type = "''CIRCLE''"
               and args = "[''4000'', ''3000'', ''5'', ''1'', ''60'', ''gge1'']"]
      unknown via circle
    by (simp add: boardLayerId_def arg_def)
  from a b c d show ?thesis by simp
qed

section \<open>Net fields of vias and pads\<close>

text \<open>
  Claim C7. The node of a via always has the net field with the resolved net id as
  its sixth child, whatever the id is. The node of a pad has the net field, as its
  ninth child, only when the resolved net id is strictly positive; otherwise that
  child is \<^verbatim>\<open>null\<close>, and no other child built by \<^verbatim>\<open>convertPad\<close> itself is a net
  field (the fifth child comes from \<^verbatim>\<open>kiAt\<close>).
\<close>

theorem via_net_always_pad_net_positive:
  "child (fst (convertVia E args st parentCoords)) 5
     = Arr [Str ''net'', ofInt (fst (getNetId st (arg args 3)))]
   \<and> (convertPad E padArgs st transform = Inr (node, st') \<and> node \<noteq> Null \<longrightarrow>
        child node 8
          = (if 0 < fst (getNetId st (arg padArgs 6))
             then Arr [Str ''net'', ofInt (fst (getNetId st (arg padArgs 6))),
                       strOf (arg padArgs 6)]
             else Null)
        \<and> (\<forall>i. i \<noteq> 4 \<longrightarrow>
              isNetField (child node i) = (i = 8 \<and> 0 < fst (getNetId st (arg padArgs 6)))))"
proof -
  have via: "child (fst (convertVia E args st parentCoords)) 5
               = Arr [Str ''net'', ofInt (fst (getNetId st (arg args 3)))]"
    by (simp add: convertVia_def Let_def child_Arr split: prod.splits)
  have pad: "child node 8
          = (if 0 < fst (getNetId st (arg padArgs 6))
             then Arr [Str ''net'', ofInt (fst (getNetId st (arg padArgs 6))),
                       strOf (arg padArgs 6)]
             else Null)
        \<and> (\<forall>i. i \<noteq> 4 \<longrightarrow>
              isNetField (child node i) = (i = 8 \<and> 0 < fst (getNetId st (arg padArgs 6))))"
    if run: "convertPad E padArgs st transform = Inr (node, st')" and node: "node \<noteq> Null"
  proof -
    from convertPad_node [OF run node] obtain a1 a2 a3 a4 a5 a6 a7 a9
      where shape: "node = Arr [Str ''pad'', a1, a2, a3, a4, Arr (Str ''size'' # a5),
                                Arr (Str ''layers'' # a6), a7,
                                if 0 < fst (getNetId st (arg padArgs 6))
                                then Arr [Str ''net'', ofInt (fst (getNetId st (arg padArgs 6))),
                                          strOf (arg padArgs 6)]
                                else Null,
                                a9]"
        and atoms: "\<not> isNetField a1" "\<not> isNetField a2" "\<not> isNetField a3"
          "\<not> isNetField a7" "\<not> isNetField a9"
      by blast
    have slot: "child node 8
          = (if 0 < fst (getNetId st (arg padArgs 6))
             then Arr [Str ''net'', ofInt (fst (getNetId st (arg padArgs 6))),
                       strOf (arg padArgs 6)]
             else Null)"
      unfolding shape by (simp add: child_Arr)
    have others: "isNetField (child node i) = (i = 8 \<and> 0 < fst (getNetId st (arg padArgs 6)))"
      if "i \<noteq> 4" for i
      unfolding shape using atoms that by (subst net_slot_of_ten) simp_all
    from slot others show ?thesis by blast
  qed
  from via pad show ?thesis by blast
qed

text \<open>
  A via without a net name and a via whose name is the first of an empty table
  carry the ids -1 and 0; a pad with the net \<^verbatim>\<open>GND\<close> carries the id 1, and a pad
  without a net name carries no net field.
\<close>

theorem via_net_always_pad_net_positive_witness:
  "child (fst (convertVia sampleEnv [''4010'', ''3000'', ''2.4'', '''', ''0.6'', ''gge1'']
                 \<lparr>nets = [''''], innerLayers = 0\<rparr> None)) 5
     = Arr [Str ''net'', Num (Fin (- 1))]
   \<and> child (fst (convertVia sampleEnv [''4010'', ''3000'', ''2.4'', ''GND'', ''0.6'', ''gge1'']
                 \<lparr>nets = [], innerLayers = 0\<rparr> None)) 5
     = Arr [Str ''net'', Num (Fin 0)]
   \<and> (\<exists>node st'.
         convertPad sampleEnv
           [''RECT'', ''4010'', ''3000'', ''10'', ''20'', ''1'', ''GND'', ''1'', ''0'', '''', ''0'']
           \<lparr>nets = [''''], innerLayers = 0\<rparr> \<lparr>tx = Fin 0, ty = Fin 0, tangle = Some (Fin 0)\<rparr>
           = Inr (node, st')
         \<and> child node 8 = Arr [Str ''net'', Num (Fin 1), Str ''GND''])
   \<and> (\<exists>node st'.
         convertPad sampleEnv
           [''RECT'', ''4010'', ''3000'', ''10'', ''20'', ''1'', '''', ''1'', ''0'', '''', ''0'']
           \<lparr>nets = [''''], innerLayers = 0\<rparr> \<lparr>tx = Fin 0, ty = Fin 0, tangle = Some (Fin 0)\<rparr>
           = Inr (node, st')
         \<and> child node 8 = Null)"
proof -
  let ?st = "\<lparr>nets = [''''], innerLayers = 0\<rparr>"
  let ?t = "\<lparr>tx = Fin 0, ty = Fin 0, tangle = Some (Fin 0)\<rparr>"
  let ?named = "[''RECT'', ''4010'', ''3000'', ''10'', ''20'', ''1'', ''GND'', ''1'', ''0'', '''', ''0'']"
  let ?unnamed = "[''RECT'', ''4010'', ''3000'', ''10'', ''20'', ''1'', '''', ''1'', ''0'', '''', ''0'']"
  have a: "child (fst (convertVia sampleEnv [''4010'', ''3000'', ''2.4'', '''', ''0.6'', ''gge1'']
                 ?st None)) 5
     = Arr [Str ''net'', Num (Fin (- 1))]"
    using via_net_always_pad_net_positive
            [of sampleEnv "[''4010'', ''3000'', ''2.4'', '''', ''0.6'', ''gge1'']" ?st None]
    by (simp add: arg_def getNetId_def ofInt_def)
  have b: "child (fst (convertVia sampleEnv [''4010'', ''3000'', ''2.4'', ''GND'', ''0.6'', ''gge1'']
                 \<lparr>nets = [], innerLayers = 0\<rparr> None)) 5
     = Arr [Str ''net'', Num (Fin 0)]"
    using via_net_always_pad_net_positive
            [of sampleEnv "[''4010'', ''3000'', ''2.4'', ''GND'', ''0.6'', ''gge1'']"
                "\<lparr>nets = [], innerLayers = 0\<rparr>" None]
    by (simp add: arg_def getNetId_def ofInt_def)
  obtain node st' where named: "convertPad sampleEnv ?named ?st ?t = Inr (node, st')"
    and node: "node \<noteq> Null"
    by (simp add: convertPad_def Let_def arg_def isCustomShape_def actualShape_def
          pointsAreRectangle_def padShapes_def padLayers_def getNetId_def split: prod.splits)
  have c: "child node 8 = Arr [Str ''net'', Num (Fin 1), Str ''GND'']"
    using named node
      via_net_always_pad_net_positive [of sampleEnv "[]" ?st None ?named ?t node st']
    by (simp add: arg_def getNetId_def ofInt_def)
  obtain node2 st2 where unnamed: "convertPad sampleEnv ?unnamed ?st ?t = Inr (node2, st2)"
    and node2: "node2 \<noteq> Null"
    by (simp add: convertPad_def Let_def arg_def isCustomShape_def actualShape_def
          pointsAreRectangle_def padShapes_def padLayers_def getNetId_def split: prod.splits)
  have d: "child node2 8 = Null"
    using unnamed node2
      via_net_always_pad_net_positive [of sampleEnv "[]" ?st None ?unnamed ?t node2 st2]
    by (simp add: arg_def getNetId_def ofInt_def)
  from a b c d named unnamed show ?thesis by blast
qed

section \<open>Tracks\<close>

text \<open>
  Claim C8, as amended. For a track record whose coordinate list has \<open>2 * N\<close>
  entries, that is \<open>N\<close> points, with \<open>N \<ge> 2\<close>, and whose layer resolves to a name,
  \<^verbatim>\<open>convertTrack\<close> returns exactly \<open>N - 1\<close> nodes. Node \<open>k\<close> runs from point \<open>k\<close> to point
  \<open>k + 1\<close>, and all nodes have the same width, layer, net and lock state. For a
  board-level track, whose requested kind is \<^verbatim>\<open>segment\<close>, the kind of every node is
  \<^verbatim>\<open>gr_line\<close> instead of \<^verbatim>\<open>segment\<close> exactly when the layer is not a copper layer; for
  a track inside a footprint, whose requested kind is \<^verbatim>\<open>fp_line\<close>, the kind is
  \<^verbatim>\<open>fp_line\<close> on every layer.
\<close>

theorem convertTrack_segments:
  assumes coords: "arg args 3 = Some cs"
    and points: "length (split '' '' cs) = 2 * N" and atLeast2: "2 \<le> N"
    and layer: "getLayerName E (arg args 1) (snd (getNetId st (arg args 2))) = Inr (Str name, st')"
  shows "\<exists>segs. convertTrack E args st objName parentCoords = Inr (segs, st')
           \<and> length segs = N - 1
           \<and> (\<forall>k<N - 1.
                segs ! k =
                  Arr (Str (if objName = ''segment'' \<and> \<not> isCopper name then ''gr_line''
                            else objName)
                       # kiStartEnd E (arg (split '' '' cs) (2 * k))
                           (arg (split '' '' cs) (2 * k + 1))
                           (arg (split '' '' cs) (2 * k + 2))
                           (arg (split '' '' cs) (2 * k + 3)) parentCoords
                       @ [Arr [Str ''width'', Num (kiUnits E (ofField (arg args 0)))],
                          Arr [Str ''layer'', Str name],
                          if isCopper name \<and> 0 < fst (getNetId st (arg args 2))
                          then Arr [Str ''net'', ofInt (fst (getNetId st (arg args 2)))]
                          else Null,
                          if arg args 5 = Some ''1'' then Arr [Str ''status'', ofInt 40000]
                          else Null]))"
proof -
  obtain netId st1 where net: "getNetId st (arg args 2) = (netId, st1)"
    by (cases "getNetId st (arg args 2)")
  from layer have nonempty: "name \<noteq> []"
    by (rule getLayerName_name_nonempty)
  have bound: "int (length (split '' '' cs)) - 2 = 2 * int (N - 1)"
    using points atLeast2 by simp
  let ?lineType = "if objName = ''segment'' \<and> \<not> isCopper name then ''gr_line'' else objName"
  let ?body = "trackNode E (split '' '' cs) ?lineType (arg args 0) name netId (arg args 5)
                 parentCoords"
  have result: "convertTrack E args st objName parentCoords
                  = Inr (map (\<lambda>k. ?body (2 * k)) [0..<N - 1], st')"
    using coords layer net nonempty
    by (simp add: convertTrack_def Let_def bound forBy2_from_0 del: of_nat_mult of_nat_diff)
  show ?thesis
    unfolding result using net
    by (simp add: trackNode_def)
qed

theorem convertTrack_segments_witness:
  "\<exists>segs. convertTrack sampleEnv [''0.2'', ''3'', ''GND'', ''4000 3000 4010 3000 4010 3010'', ''g1'', ''0'']
             \<lparr>nets = [''''], innerLayers = 0\<rparr> ''segment'' None
           = Inr (segs, \<lparr>nets = ['''', ''GND''], innerLayers = 0\<rparr>)
     \<and> length segs = 2
     \<and> segs ! 0 = Arr [Str ''gr_line'',
                       Arr [Str ''start'', Num (Fin 0), Num (Fin 0)],
                       Arr [Str ''end'', Num (Fin 2.54), Num (Fin 0)],
                       Arr [Str ''width'', Num (Fin 0.0508)],
                       Arr [Str ''layer'', Str ''F.SilkS''], Null, Null]
     \<and> segs ! 1 = Arr [Str ''gr_line'',
                       Arr [Str ''start'', Num (Fin 2.54), Num (Fin 0)],
                       Arr [Str ''end'', Num (Fin 2.54), Num (Fin 2.54)],
                       Arr [Str ''width'', Num (Fin 0.0508)],
                       Arr [Str ''layer'', Str ''F.SilkS''], Null, Null]"
proof -
  let ?args = "[''0.2'', ''3'', ''GND'', ''4000 3000 4010 3000 4010 3010'', ''g1'', ''0'']"
  let ?st = "\<lparr>nets = [''''], innerLayers = 0\<rparr>"
  let ?st' = "\<lparr>nets = ['''', ''GND''], innerLayers = 0\<rparr>"
  have coords: "arg ?args 3 = Some ''4000 3000 4010 3000 4010 3010''"
    by (simp add: arg_def)
  have points: "length (split '' '' ''4000 3000 4010 3000 4010 3010'') = 2 * 3"
    by (simp add: split_def)
  have layer: "getLayerName sampleEnv (arg ?args 1) (snd (getNetId ?st (arg ?args 2)))
                 = Inr (Str ''F.SilkS'', ?st')"
    by (simp add: arg_def getNetId_def getLayerName_def layers_def)
  from convertTrack_segments [OF coords points _ layer, of "''segment''" None]
  obtain segs where run: "convertTrack sampleEnv ?args ?st ''segment'' None = Inr (segs, ?st')"
    and len: "length segs = 3 - 1"
    and nodes: "\<forall>k<3 - 1.
                segs ! k =
                  Arr (Str (if ''segment'' = ''segment'' \<and> \<not> isCopper ''F.SilkS'' then ''gr_line''
                            else ''segment'')
                       # kiStartEnd sampleEnv (arg (split '' '' ''4000 3000 4010 3000 4010 3010'') (2 * k))
                           (arg (split '' '' ''4000 3000 4010 3000 4010 3010'') (2 * k + 1))
                           (arg (split '' '' ''4000 3000 4010 3000 4010 3010'') (2 * k + 2))
                           (arg (split '' '' ''4000 3000 4010 3000 4010 3010'') (2 * k + 3)) None
                       @ [Arr [Str ''width'', Num (kiUnits sampleEnv (ofField (arg ?args 0)))],
                          Arr [Str ''layer'', Str ''F.SilkS''],
                          if isCopper ''F.SilkS'' \<and> 0 < fst (getNetId ?st (arg ?args 2))
                          then Arr [Str ''net'', ofInt (fst (getNetId ?st (arg ?args 2)))]
                          else Null,
                          if arg ?args 5 = Some ''1'' then Arr [Str ''status'', ofInt 40000]
                          else Null])"
    by auto
  from nodes have n0: "segs ! 0 = Arr [Str ''gr_line'',
                       Arr [Str ''start'', Num (Fin 0), Num (Fin 0)],
                       Arr [Str ''end'', Num (Fin 2.54), Num (Fin 0)],
                       Arr [Str ''width'', Num (Fin 0.0508)],
                       Arr [Str ''layer'', Str ''F.SilkS''], Null, Null]"
    by (simp add: split_def arg_def kiStartEnd_def isCopper_def endsWith_def sampleParsers
          legacyKiCoords_def)
  from nodes have n1: "segs ! 1 = Arr [Str ''gr_line'',
                       Arr [Str ''start'', Num (Fin 2.54), Num (Fin 0)],
                       Arr [Str ''end'', Num (Fin 2.54), Num (Fin 2.54)],
                       Arr [Str ''width'', Num (Fin 0.0508)],
                       Arr [Str ''layer'', Str ''F.SilkS''], Null, Null]"
    by (simp add: split_def arg_def kiStartEnd_def isCopper_def endsWith_def sampleParsers
          legacyKiCoords_def)
  from run len n0 n1 show ?thesis by simp
qed

text \<open>
  A track of a footprint on the front silkscreen, which is not a copper layer: its
  node is an \<^verbatim>\<open>fp_line\<close>, not a \<^verbatim>\<open>gr_line\<close>.
\<close>

theorem convertTrack_footprint_counterexample:
  "convertLibShape sampleEnv \<lparr>tx = Fin 0, ty = Fin 0, tangle = Some (Fin 0)\<rparr>
     ''TRACK~0.2~3~~4000 3000 4010 3000~g1~0'' \<lparr>nets = [''''], innerLayers = 0\<rparr>
   = Inr ([Arr [Str ''fp_line'',
                Arr [Str ''start'', Num (Fin 0), Num (Fin 0)],
                Arr [Str ''end'', Num (Fin 2.54), Num (Fin 0)],
                Arr [Str ''width'', Num (Fin 0.0508)],
                Arr [Str ''layer'', Str ''F.SilkS''], Null, Null]],
          \<lparr>nets = [''''], innerLayers = 0\<rparr>)
   \<and> \<not> isCopper ''F.SilkS''"
  by (simp add: convertLibShape_def convertTrack_def trackNode_def kiStartEnd_def split_def
        arg_def getNetId_def getLayerName_def layers_def isCopper_def endsWith_def Let_def
        forBy2.simps ofInt_def sampleParsers legacyKiCoords_def)

section \<open>Arcs\<close>

text \<open>
  Claim C9, as amended. For every arc record whose layer resolves to a name and
  whose path matches: when the computed centre has a not-a-number coordinate,
  \<^verbatim>\<open>convertArc\<close> returns \<^verbatim>\<open>null\<close>, so a not-a-number centre never appears in an
  output node; otherwise the node holds the centre, and its reference endpoint is
  the arc's start point when the sweep flag is \<^verbatim>\<open>1\<close> and its end point otherwise.
  The other numbers of the node (end point, angle, width) are emitted as computed,
  without a check.
\<close>

theorem convertArc_center_checked:
  assumes layer: "getLayerName E (arg args 1) st = Inr (Str name, st')"
    and path: "arg args 3 = Some p"
    and matches: "matchArcPath (collapseSeparators p) = Some (startPoint, arcParams)"
    and start: "start = kiCoords E (ofField (arg (split '' '' startPoint) 0))
                          (ofField (arg (split '' '' startPoint) 1)) transform"
    and end': "end' = kiCoords E (ofField (arg (split '' '' arcParams) 5))
                        (ofField (arg (split '' '' arcParams) 6)) transform"
    and radii: "radii = rotate E (kiUnits E (ofField (arg (split '' '' arcParams) 0)),
                                  kiUnits E (ofField (arg (split '' '' arcParams) 1)))
                          (angleOrZero transform)"
    and arc: "computeArc E (fst start) (snd start) (fst radii) (snd radii)
                (parseFloat E (toStr (arg (split '' '' arcParams) 2)))
                (arg (split '' '' arcParams) 3 = Some ''1'')
                (arg (split '' '' arcParams) 4 = Some ''1'')
                (fst end') (snd end') = (cx, cy, extent)"
  shows "(isNaN cx \<or> isNaN cy \<longrightarrow> convertArc E args st objName transform = Inr (Null, st'))
         \<and> (\<not> isNaN cx \<and> \<not> isNaN cy \<longrightarrow>
              convertArc E args st objName transform
                = Inr (Arr [Str objName,
                            Arr [Str ''start'', Num cx, Num cy],
                            if arg (split '' '' arcParams) 4 = Some ''1''
                            then Arr [Str ''end'', Num (fst start), Num (snd start)]
                            else Arr [Str ''end'', Num (fst end'), Num (snd end')],
                            Arr [Str ''angle'', Num (jabs extent)],
                            Arr [Str ''width'', Num (kiUnits E (ofField (arg args 0)))],
                            Arr [Str ''layer'', Str name]],
                       st'))"
proof -
  from layer have "name \<noteq> []" by (rule getLayerName_name_nonempty)
  with layer path matches arc [unfolded start end' radii] show ?thesis
    unfolding start end' radii
    by (simp add: convertArc_def Let_def case_prod_beta)
qed

lemmas arcSample =
  getLayerName_def layers_def arg_def split_def matchArcPath_def collapseSeparators_def
  isCommaSpace_def isArcChar_def captureAfterSpaces_def sampleParsers legacyKiCoords_def
  halfCircleArc_def angleOrZero_def

text \<open>
  A half circle from (0, 0) to (5.08, 0) mm: with the sweep flag 1 the reference
  endpoint is the start point, with the sweep flag 0 it is the end point. When the
  end of the path is not a number, so is the centre, and the arc is dropped.
\<close>

theorem convertArc_center_checked_witness:
  "convertArc sampleEnv [''1'', ''1'', '''', ''M 4000 3000 A 10 10 0 0 1 4020 3000'', '''', ''gge1'', ''0'']
     \<lparr>nets = [''''], innerLayers = 0\<rparr> ''gr_arc'' None
   = Inr (Arr [Str ''gr_arc'',
               Arr [Str ''start'', Num (Fin 2.54), Num (Fin 0)],
               Arr [Str ''end'', Num (Fin 0), Num (Fin 0)],
               Arr [Str ''angle'', Num (Fin 180)],
               Arr [Str ''width'', Num (Fin 0.254)],
               Arr [Str ''layer'', Str ''F.Cu'']],
          \<lparr>nets = [''''], innerLayers = 0\<rparr>)
   \<and> convertArc sampleEnv [''1'', ''1'', '''', ''M 4000 3000 A 10 10 0 0 0 4020 3000'', '''', ''gge1'', ''0'']
       \<lparr>nets = [''''], innerLayers = 0\<rparr> ''gr_arc'' None
     = Inr (Arr [Str ''gr_arc'',
                 Arr [Str ''start'', Num (Fin 2.54), Num (Fin 0)],
                 Arr [Str ''end'', Num (Fin 5.08), Num (Fin 0)],
                 Arr [Str ''angle'', Num (Fin 180)],
                 Arr [Str ''width'', Num (Fin 0.254)],
                 Arr [Str ''layer'', Str ''F.Cu'']],
            \<lparr>nets = [''''], innerLayers = 0\<rparr>)
   \<and> convertArc sampleEnv [''1'', ''1'', '''', ''M 4000 3000 A 10 10 0 0 1 - 3000'', '''', ''gge1'', ''0'']
       \<lparr>nets = [''''], innerLayers = 0\<rparr> ''gr_arc'' None
     = Inr (Null, \<lparr>nets = [''''], innerLayers = 0\<rparr>)"
proof -
  let ?st = "\<lparr>nets = [''''], innerLayers = 0\<rparr>"
  let ?cw = "[''1'', ''1'', '''', ''M 4000 3000 A 10 10 0 0 1 4020 3000'', '''', ''gge1'', ''0'']"
  let ?ccw = "[''1'', ''1'', '''', ''M 4000 3000 A 10 10 0 0 0 4020 3000'', '''', ''gge1'', ''0'']"
  let ?bad = "[''1'', ''1'', '''', ''M 4000 3000 A 10 10 0 0 1 - 3000'', '''', ''gge1'', ''0'']"
  have layer: "getLayerName sampleEnv (arg args 1) ?st = Inr (Str ''F.Cu'', ?st)"
    if "args = ?cw \<or> args = ?ccw \<or> args = ?bad" for args
    using that by (auto simp: getLayerName_def layers_def arg_def)
  have a: "convertArc sampleEnv ?cw ?st ''gr_arc'' None
   = Inr (Arr [Str ''gr_arc'',
               Arr [Str ''start'', Num (Fin 2.54), Num (Fin 0)],
               Arr [Str ''end'', Num (Fin 0), Num (Fin 0)],
               Arr [Str ''angle'', Num (Fin 180)],
               Arr [Str ''width'', Num (Fin 0.254)],
               Arr [Str ''layer'', Str ''F.Cu'']], ?st)"
    using convertArc_center_checked
            [where E = sampleEnv and args = ?cw and st = ?st and objName = "''gr_arc''"
               and transform = None and p = "''M 4000 3000 A 10 10 0 0 1 4020 3000''"
               and startPoint = "''4000 3000 ''" and arcParams = "''10 10 0 0 1 4020 3000''"
               and cx = "Fin 2.54" and cy = "Fin 0" and extent = "Fin 180",
             OF layer _ _ refl refl refl]
    by (simp add: arcSample)
  have b: "convertArc sampleEnv ?ccw ?st ''gr_arc'' None
     = Inr (Arr [Str ''gr_arc'',
                 Arr [Str ''start'', Num (Fin 2.54), Num (Fin 0)],
                 Arr [Str ''end'', Num (Fin 5.08), Num (Fin 0)],
                 Arr [Str ''angle'', Num (Fin 180)],
                 Arr [Str ''width'', Num (Fin 0.254)],
                 Arr [Str ''layer'', Str ''F.Cu'']], ?st)"
    using convertArc_center_checked
            [where E = sampleEnv and args = ?ccw and st = ?st and objName = "''gr_arc''"
               and transform = None and p = "''M 4000 3000 A 10 10 0 0 0 4020 3000''"
               and startPoint = "''4000 3000 ''" and arcParams = "''10 10 0 0 0 4020 3000''"
               and cx = "Fin 2.54" and cy = "Fin 0" and extent = "Fin 180",
             OF layer _ _ refl refl refl]
    by (simp add: arcSample)
  have c: "convertArc sampleEnv ?bad ?st ''gr_arc'' None = Inr (Null, ?st)"
    using convertArc_center_checked
            [where E = sampleEnv and args = ?bad and st = ?st and objName = "''gr_arc''"
               and transform = None and p = "''M 4000 3000 A 10 10 0 0 1 - 3000''"
               and startPoint = "''4000 3000 ''" and arcParams = "''10 10 0 0 1 - 3000''"
               and cx = NaN and cy = "Fin 0" and extent = "Fin 180",
             OF layer _ _ refl refl refl]
    by (simp add: arcSample)
  from a b c show ?thesis by simp
qed

text \<open>
  An arc record whose width field is empty: the centre is a number, the node is
  emitted, and its width is not-a-number.
\<close>

theorem convertArc_width_nan_counterexample:
  "convertArc sampleEnv ['''', ''1'', '''', ''M 4000 3000 A 10 10 0 0 1 4020 3000'', '''', ''gge1'', ''0'']
     \<lparr>nets = [''''], innerLayers = 0\<rparr> ''gr_arc'' None
   = Inr (Arr [Str ''gr_arc'',
               Arr [Str ''start'', Num (Fin 2.54), Num (Fin 0)],
               Arr [Str ''end'', Num (Fin 0), Num (Fin 0)],
               Arr [Str ''angle'', Num (Fin 180)],
               Arr [Str ''width'', Num NaN],
               Arr [Str ''layer'', Str ''F.Cu'']],
          \<lparr>nets = [''''], innerLayers = 0\<rparr>)"
  by (simp add: convertArc_def Let_def arcSample)

section \<open>Pads on other layers\<close>

text \<open>
  Claim C10, as amended. For a pad record whose layer id is not one of \<^verbatim>\<open>1\<close>, \<^verbatim>\<open>2\<close>
  and \<^verbatim>\<open>11\<close>, \<^verbatim>\<open>convertPad\<close> throws a \<^verbatim>\<open>TypeError\<close>: the lookup in its layer table is
  \<^verbatim>\<open>undefined\<close> or an inherited value and cannot be spread, or the point list
  itself is \<^verbatim>\<open>undefined\<close>. The error ends the conversion. For a pad inside a
  footprint, the loop of \<^verbatim>\<open>convertLib\<close> throws it, and a board that holds the
  footprint makes \<^verbatim>\<open>convertBoardToArray\<close> throw. For a pad of the board that is not
  an ellipse, \<^verbatim>\<open>convertShape\<close> throws it, a board that holds the pad makes
  \<^verbatim>\<open>convertBoardToArray\<close> throw, and when the shapes before the pad convert,
  the error thrown is this \<^verbatim>\<open>TypeError\<close>. There are two exceptions. A polygon pad
  with an empty point list returns \<^verbatim>\<open>null\<close> before the layer is looked up. A pad of
  the board that is an ellipse is emitted as a via and its layer is not looked at.
\<close>

theorem convertPad_unknown_layer_throws:
  assumes layer: "toStr (arg args 5) \<notin> {''1'', ''2'', ''11''}"
    and notEmptyPolygon: "\<not> (arg args 0 = Some ''POLYGON'' \<and> arg args 9 = Some '''')"
  shows "(\<exists>msg. convertPad E args st transform = Inl (TypeError msg))
         \<and> (split ''~'' p = ''PAD'' # args \<longrightarrow>
              (\<exists>msg. convertLibShape E transform p st = Inl (TypeError msg)))
         \<and> (split ''~'' p = ''PAD'' # args \<and> split ''~'' s = ''LIB'' # libArgs
              \<and> p \<in> set (tl (split ''#@$'' (join ''~'' libArgs))) \<longrightarrow>
              (\<exists>e. convertShape E s st = Inl e)
              \<and> (s \<in> set (shape input) \<longrightarrow> (\<exists>e. convertBoardToArray E input = Inl e)))
         \<and> (split ''~'' s = ''PAD'' # args \<and> arg args 0 \<noteq> Some ''ELLIPSE'' \<longrightarrow>
              (\<exists>msg. convertShape E s st = Inl (TypeError msg))
              \<and> (s \<in> set (shape input) \<longrightarrow> (\<exists>e. convertBoardToArray E input = Inl e))
              \<and> (shape input = before @ s # after
                   \<and> convertShapes E before (initialState input) = Inr (rs, st1) \<longrightarrow>
                   (\<exists>msg. convertBoardToArray E input = Inl (TypeError msg))))
         \<and> (split ''~'' s = ''PAD'' # args \<and> arg args 0 = Some ''ELLIPSE'' \<longrightarrow>
              convertShape E s st
                = Inr (Some [Arr [Str ''via'',
                                  kiAt E (ofField (arg args 1)) (ofField (arg args 2)) Absent None,
                                  Arr [Str ''size'', Num (kiUnits E (ofField (arg args 3)))],
                                  Arr [Str ''drill'',
                                       Num (jmul (kiUnits E (ofField (arg args 8))) (Fin 2))],
                                  Arr [Str ''layers'', Str ''F.Cu'', Str ''B.Cu''],
                                  Arr [Str ''net'', ofInt (fst (getNetId st (arg args 6)))]]],
                       snd (getNetId st (arg args 6))))"
proof -
  have lookup: "map_of padLayers (toStr (arg args 5)) = None"
    using layer by (simp add: padLayers_def)
  have throws: "\<exists>msg. convertPad E args s0 t = Inl (TypeError msg)" for s0 t
  proof (cases "arg args 9")
    case None
    then show ?thesis by (simp add: convertPad_def Let_def)
  next
    case (Some pts)
    have "\<not> (isCustomShape E (arg args 0) pts \<and> pts = [])"
    proof
      assume early: "isCustomShape E (arg args 0) pts \<and> pts = []"
      then have "\<not> pointsAreRectangle E (arg args 0) pts"
        by (simp add: pointsAreRectangle_def isRectangle_def split_def)
      with early have "map_of padShapes (toStr (arg args 0)) = Some ''custom''"
        by (simp add: isCustomShape_def actualShape_def)
      then have "arg args 0 = Some ''POLYGON''"
        by (cases "arg args 0") (simp_all add: padShapes_def split: if_splits)
      with early Some notEmptyPolygon show False by simp
    qed
    with Some lookup show ?thesis
      by (simp add: convertPad_def Let_def split: prod.splits)
  qed
  have inLib: "\<exists>msg. convertLibShape E t p s0 = Inl (TypeError msg)"
    if "split ''~'' p = ''PAD'' # args" for t s0
    using throws [of s0 t] that by (auto simp: convertLibShape_def)
  have footprint: "(\<exists>e. convertShape E s st = Inl e)
              \<and> (s \<in> set (shape input) \<longrightarrow> (\<exists>e. convertBoardToArray E input = Inl e))"
    if pad: "split ''~'' p = ''PAD'' # args" and lib: "split ''~'' s = ''LIB'' # libArgs"
      and member: "p \<in> set (tl (split ''#@$'' (join ''~'' libArgs)))"
  proof -
    have inner: "\<exists>e. convertLibShape E t p s0 = Inl e" for t s0
      using inLib [OF pad, of t s0] by blast
    have outer: "\<exists>e. convertShape E s s0 = Inl e" for s0
      using convertShape_lib_throws [OF lib member, of E s0] inner by blast
    have "\<exists>e. convertBoardToArray E input = Inl e" if "s \<in> set (shape input)"
      using that outer by (rule convertBoardToArray_throws)
    with outer [of st] show ?thesis by blast
  qed
  have onBoard: "\<exists>msg. convertShape E s s0 = Inl (TypeError msg)"
    if pad: "split ''~'' s = ''PAD'' # args" and shape: "arg args 0 \<noteq> Some ''ELLIPSE''" for s0
  proof -
    let ?t = "\<lparr>tx = fst (kiCoords E (ofField (arg args 1)) (ofField (arg args 2)) None),
               ty = snd (kiCoords E (ofField (arg args 1)) (ofField (arg args 2)) None),
               tangle = Some (Fin 0)\<rparr>"
    from throws [of s0 ?t] obtain msg where "convertPad E args s0 ?t = Inl (TypeError msg)"
      by blast
    with pad shape show ?thesis
      by (simp add: convertShape_def single_def convertPadToVia_def Let_def)
  qed
  have board: "(\<exists>msg. convertShape E s st = Inl (TypeError msg))
              \<and> (s \<in> set (shape input) \<longrightarrow> (\<exists>e. convertBoardToArray E input = Inl e))
              \<and> (shape input = before @ s # after
                   \<and> convertShapes E before (initialState input) = Inr (rs, st1) \<longrightarrow>
                   (\<exists>msg. convertBoardToArray E input = Inl (TypeError msg)))"
    if pad: "split ''~'' s = ''PAD'' # args" and shape: "arg args 0 \<noteq> Some ''ELLIPSE''"
  proof -
    have always: "\<exists>e. convertShape E s s0 = Inl e" for s0
      using onBoard [OF pad shape, of s0] by blast
    have anywhere: "\<exists>e. convertBoardToArray E input = Inl e" if "s \<in> set (shape input)"
      using that always by (rule convertBoardToArray_throws)
    have first: "\<exists>msg. convertBoardToArray E input = Inl (TypeError msg)"
      if "shape input = before @ s # after"
        "convertShapes E before (initialState input) = Inr (rs, st1)"
    proof -
      from onBoard [OF pad shape, of st1] obtain msg
        where "convertShape E s st1 = Inl (TypeError msg)" by blast
      with that have "convertBoardToArray E input = Inl (TypeError msg)"
        by (rule convertBoardToArray_first_throw)
      then show ?thesis by blast
    qed
    from onBoard [OF pad shape, of st] anywhere first show ?thesis by blast
  qed
  have ellipse: "convertShape E s st
                = Inr (Some [Arr [Str ''via'',
                                  kiAt E (ofField (arg args 1)) (ofField (arg args 2)) Absent None,
                                  Arr [Str ''size'', Num (kiUnits E (ofField (arg args 3)))],
                                  Arr [Str ''drill'',
                                       Num (jmul (kiUnits E (ofField (arg args 8))) (Fin 2))],
                                  Arr [Str ''layers'', Str ''F.Cu'', Str ''B.Cu''],
                                  Arr [Str ''net'', ofInt (fst (getNetId st (arg args 6)))]]],
                       snd (getNetId st (arg args 6)))"
    if "split ''~'' s = ''PAD'' # args" "arg args 0 = Some ''ELLIPSE''"
    using that
    by (simp add: convertShape_def single_def convertPadToVia_def Let_def split: prod.splits)
  from throws [of st transform] inLib [of transform st] footprint board ellipse
  show ?thesis by blast
qed

text \<open>
  A rectangular pad on layer 3: as the second shape of a board, and inside a
  footprint, it makes the conversion of the board throw. An elliptic pad of the
  board on layer 3 is emitted as a via.
\<close>

theorem convertPad_unknown_layer_throws_witness:
  "(\<exists>msg. convertPad sampleEnv
             [''RECT'', ''4010'', ''3000'', ''10'', ''20'', ''3'', ''GND'', ''1'', ''0'', '''', ''0'',
              ''gge8'']
             \<lparr>nets = [''''], innerLayers = 0\<rparr> \<lparr>tx = Fin 0, ty = Fin 0, tangle = Some (Fin 0)\<rparr>
           = Inl (TypeError msg))
   \<and> (\<exists>msg. convertBoardToArray sampleEnv
               \<lparr>routerRule = None,
                shape = [''VIA~4010~3000~2.4~GND~0.6~gge2'',
                         ''PAD~RECT~4010~3000~10~20~3~GND~1~0~~0~gge8'']\<rparr>
             = Inl (TypeError msg))
   \<and> (\<exists>e. convertBoardToArray sampleEnv
             \<lparr>routerRule = None,
              shape = [''LIB~4000~3000~package`R0603~0~~gge7~1~~~0#@$PAD~RECT~4010~3000~10~20~3~GND~1~0~~0~gge8'']\<rparr>
           = Inl e)
   \<and> convertShape sampleEnv ''PAD~ELLIPSE~4010~3000~2.4~2.4~3~GND~1~0.6~~0~gge9''
         \<lparr>nets = [''''], innerLayers = 0\<rparr>
       = Inr (Some [Arr [Str ''via'',
                         Arr [Str ''at'', Num (Fin 2.54), Num (Fin 0), Null],
                         Arr [Str ''size'', Num (Fin 0.6096)],
                         Arr [Str ''drill'', Num (Fin 0.3048)],
                         Arr [Str ''layers'', Str ''F.Cu'', Str ''B.Cu''],
                         Arr [Str ''net'', Num (Fin 1)]]],
              \<lparr>nets = ['''', ''GND''], innerLayers = 0\<rparr>)"
proof -
  let ?args = "[''RECT'', ''4010'', ''3000'', ''10'', ''20'', ''3'', ''GND'', ''1'', ''0'', '''', ''0'',
                ''gge8'']"
  let ?pad = "''PAD~RECT~4010~3000~10~20~3~GND~1~0~~0~gge8''"
  let ?via = "''VIA~4010~3000~2.4~GND~0.6~gge2''"
  let ?lib = "''LIB~4000~3000~package`R0603~0~~gge7~1~~~0#@$PAD~RECT~4010~3000~10~20~3~GND~1~0~~0~gge8''"
  let ?libArgs = "[''4000'', ''3000'', ''package`R0603'', ''0'', '''', ''gge7'', ''1'', '''', '''',
                   ''0#@$PAD'', ''RECT'', ''4010'', ''3000'', ''10'', ''20'', ''3'', ''GND'', ''1'',
                   ''0'', '''', ''0'', ''gge8'']"
  let ?board = "\<lparr>routerRule = None, shape = [?via, ?pad]\<rparr>"
  let ?withLib = "\<lparr>routerRule = None, shape = [?lib]\<rparr>"
  have layer: "toStr (arg ?args 5) \<notin> {''1'', ''2'', ''11''}"
    by (simp add: arg_def)
  have notEmptyPolygon: "\<not> (arg ?args 0 = Some ''POLYGON'' \<and> arg ?args 9 = Some '''')"
    by (simp add: arg_def)
  have pad: "split ''~'' ?pad = ''PAD'' # ?args"
    by (simp add: split_def)
  have lib: "split ''~'' ?lib = ''LIB'' # ?libArgs"
    by (simp add: split_def)
  have member: "?pad \<in> set (tl (split ''#@$'' (join ''~'' ?libArgs)))"
    by (simp add: split_def)
  have shape: "arg ?args 0 \<noteq> Some ''ELLIPSE''"
    by (simp add: arg_def)
  obtain r st1 where via: "convertShapes sampleEnv [?via] (initialState ?board) = Inr (r, st1)"
    by (simp add: initialState_def convertShape_def convertVia_def single_def split_def
          arg_def getNetId_def Let_def)
  note facts = convertPad_unknown_layer_throws [OF layer notEmptyPolygon]
  have a: "\<exists>msg. convertPad sampleEnv ?args \<lparr>nets = [''''], innerLayers = 0\<rparr>
                   \<lparr>tx = Fin 0, ty = Fin 0, tangle = Some (Fin 0)\<rparr> = Inl (TypeError msg)"
    using facts by blast
  have b: "\<exists>msg. convertBoardToArray sampleEnv ?board = Inl (TypeError msg)"
    using facts [where s = ?pad and input = ?board and before = "[?via]" and after = "[]"
                   and E = sampleEnv and rs = r and ?st1.0 = st1]
      pad shape via
    by simp
  have c: "\<exists>e. convertBoardToArray sampleEnv ?withLib = Inl e"
    using facts [where p = ?pad and s = ?lib and libArgs = ?libArgs and input = ?withLib
                   and E = sampleEnv]
      pad lib member
    by simp
  let ?ellipse = "[''ELLIPSE'', ''4010'', ''3000'', ''2.4'', ''2.4'', ''3'', ''GND'', ''1'', ''0.6'', '''',
                   ''0'', ''gge9'']"
  have layer': "toStr (arg ?ellipse 5) \<notin> {''1'', ''2'', ''11''}"
    by (simp add: arg_def)
  have notEmptyPolygon': "\<not> (arg ?ellipse 0 = Some ''POLYGON'' \<and> arg ?ellipse 9 = Some '''')"
    by (simp add: arg_def)
  have d: "convertShape sampleEnv ''PAD~ELLIPSE~4010~3000~2.4~2.4~3~GND~1~0.6~~0~gge9''
         \<lparr>nets = [''''], innerLayers = 0\<rparr>
       = Inr (Some [Arr [Str ''via'',
                         Arr [Str ''at'', Num (Fin 2.54), Num (Fin 0), Null],
                         Arr [Str ''size'', Num (Fin 0.6096)],
                         Arr [Str ''drill'', Num (Fin 0.3048)],
                         Arr [Str ''layers'', Str ''F.Cu'', Str ''B.Cu''],
                         Arr [Str ''net'', Num (Fin 1)]]],
              \<lparr>nets = ['''', ''GND''], innerLayers = 0\<rparr>)"
    using convertPad_unknown_layer_throws
            [OF layer' notEmptyPolygon',
             where s = "''PAD~ELLIPSE~4010~3000~2.4~2.4~3~GND~1~0.6~~0~gge9''"
               and E = sampleEnv and st = "\<lparr>nets = [''''], innerLayers = 0\<rparr>"]
    by (simp add: split_def arg_def getNetId_def ofInt_def sampleParsers legacyKiAt_def
          legacyKiCoords_def)
  from a b c d show ?thesis by blast
qed

text \<open>
  A polygon pad on layer 3 whose point list is the empty string is not thrown on:
  \<^verbatim>\<open>convertPad\<close> returns \<^verbatim>\<open>null\<close> and leaves the state as it was.
\<close>

theorem convertPad_polygon_without_points_counterexample:
  "convertPad sampleEnv
     [''POLYGON'', ''4010'', ''3000'', ''10'', ''20'', ''3'', ''GND'', ''1'', ''0'', '''', ''0'']
     \<lparr>nets = [''''], innerLayers = 0\<rparr> \<lparr>tx = Fin 0, ty = Fin 0, tangle = Some (Fin 0)\<rparr>
   = Inr (Null, \<lparr>nets = [''''], innerLayers = 0\<rparr>)
   \<and> toStr (arg [''POLYGON'', ''4010'', ''3000'', ''10'', ''20'', ''3'', ''GND'', ''1'', ''0'', '''', ''0''] 5)
       \<notin> {''1'', ''2'', ''11''}"
  by (simp add: convertPad_def Let_def arg_def isCustomShape_def actualShape_def
        pointsAreRectangle_def padShapes_def isRectangle_def split_def)

end
